theory Spec2Isabelle
  imports Main
begin

section \<open>Browser attacher: data model\<close>

text \<open>
  Embedding of \<^verbatim>\<open>src/targets/browser/browserAttacher.ts\<close> (class
  \<^verbatim>\<open>BrowserAttacher\<close>). The class is asynchronous: every \<^verbatim>\<open>await\<close> is a point
  where other callbacks of the single JavaScript thread may run. Each method is
  therefore cut at its \<^verbatim>\<open>await\<close>s into the pieces that run without interruption, an
  attach attempt that is suspended at an \<^verbatim>\<open>await\<close> is a value of type \<open>task\<close>, and
  the promises, timers and event emitters of the environment are driven by explicit
  \<open>action\<close>s.
\<close>

subsection \<open>Configuration, context, results\<close>

text \<open>
  Modelled from the spec: the enumeration \<^verbatim>\<open>DebugType\<close> (common/contributionUtils) is
  not among the sources. The specification only says that \<^verbatim>\<open>type\<close> "must identify a
  browser-attach request kind"; \<open>Chrome\<close> and \<open>Edge\<close> are the two kinds \<^verbatim>\<open>launch\<close>
  names, the other constructors stand for the kinds that are not browser kinds.
\<close>

datatype debug_type = ExtensionHost | Terminal | Node | Chrome | Edge

text \<open>
  The launch configuration. \<open>ident\<close> stands for the identity of the JavaScript
  object: the source compares configurations with \<^verbatim>\<open>===\<close>, so two objects with the
  same field values are still different; equality of the record (identity included)
  models \<^verbatim>\<open>===\<close>.
\<close>

record attach_params =
  ident :: nat
  type :: debug_type
  request :: string
  address :: string
  port :: nat
  restart :: bool
  urlFilter :: "string option"
  url :: "string option"
  timeout :: nat

datatype cancellation_token = NeverCancelled | Token nat

record launch_context =
  cancellationToken :: cancellation_token
  telemetryReporter :: nat
  targetOrigin :: nat

record launch_result =
  error :: "string option"
  blockSessionTermination :: "bool option"

record stop_metadata =
  killed :: bool
  code :: int

record target =
  targetId :: nat
  canAttach :: bool

subsection \<open>Observable effects\<close>

datatype notification = TargetListChanged | Terminated stop_metadata

text \<open>
  Calls the attacher makes on its collaborators, in the order it makes them:
  \<open>Open u\<close> is \<^verbatim>\<open>launcher.attach({browserURL: u}, ...)\<close>, \<open>Delay ms\<close> is
  \<^verbatim>\<open>delay(ms)\<close>, \<open>ConnectTM c\<close> is \<^verbatim>\<open>BrowserTargetManager.connect(c, ...)\<close>,
  \<open>WaitForMainTarget m\<close> is \<^verbatim>\<open>m.waitForMainTarget(...)\<close>, \<open>Fire n\<close> is
  \<^verbatim>\<open>fire\<close> on one of the two emitters of the attacher.
\<close>

datatype effect =
    Open string
  | Delay nat
  | SetTimeout nat nat
  | ClearTimeout nat
  | CloseConnection nat
  | ConnectTM nat
  | WaitForMainTarget nat
  | DisposeTM nat
  | DisposeSubscription nat
  | Fire notification

subsection \<open>Suspended attach attempts\<close>

text \<open>
  Where an invocation of \<^verbatim>\<open>_attemptToAttach\<close> is suspended:
  in \<^verbatim>\<open>acquireConnectionForBrowser\<close> at \<^verbatim>\<open>await launcher.attach\<close> or at
  \<^verbatim>\<open>await delay(1000)\<close>, at \<^verbatim>\<open>await BrowserTargetManager.connect\<close>, at
  \<^verbatim>\<open>await Promise.race\<close>, or returned (with the error string or \<^verbatim>\<open>undefined\<close>).
\<close>

datatype task =
    AwaitAttach attach_params launch_context
  | AwaitDelay attach_params launch_context
  | AwaitConnect attach_params launch_context nat
  | AwaitRace attach_params launch_context nat
  | Returned "string option"

subsection \<open>State\<close>

text \<open>The private fields of the class.\<close>

record attacher =
  attemptTimer :: "nat option"
  connection :: "nat option"
  targetManager :: "nat option"
  disposables :: "nat list"
  lastLaunchParams :: "attach_params option"

text \<open>
  The attacher together with its environment: the suspended attach attempts, the
  pending timeouts with the arguments their callback closes over, the listeners the
  attacher has on \<^verbatim>\<open>onDisconnected\<close> of connections (subscription, connection, and the
  \<^verbatim>\<open>params\<close> and \<^verbatim>\<open>context\<close> the callback closes over), the target managers whose
  events the attacher listens to, the cancellation tokens that have been signalled, a
  counter for fresh identities, and the effects so far.
\<close>

record world = attacher +
  tasks :: "nat \<rightharpoonup> task"
  timers :: "nat \<rightharpoonup> attach_params \<times> launch_context"
  listeners :: "(nat \<times> nat \<times> attach_params \<times> launch_context) list"
  tm_listeners :: "nat list"
  cancelled :: "nat set"
  nextId :: nat
  effects :: "effect list"

definition init :: world where
  "init = \<lparr>attemptTimer = None, connection = None, targetManager = None,
            disposables = [], lastLaunchParams = None,
            tasks = Map.empty, timers = Map.empty, listeners = [], tm_listeners = [],
            cancelled = {}, nextId = 0, effects = []\<rparr>"

section \<open>Message formatting\<close>

text \<open>
  \<^verbatim>\<open>localize(key, message, ...args)\<close> of vscode-nls with the default bundle: every
  \<^verbatim>\<open>{digits}\<close> of the message is replaced by the argument whose index is the first
  digit; a string argument is inserted as it is, a number or \<^verbatim>\<open>undefined\<close> through
  \<^verbatim>\<open>String\<close>. The inserted text is not scanned again.
\<close>

fun string_of_nat :: "nat \<Rightarrow> string" where
  "string_of_nat n =
     (if n < 10 then [''0123456789'' ! n]
      else string_of_nat (n div 10) @ [''0123456789'' ! (n mod 10)])"

declare string_of_nat.simps [simp del]

datatype format_arg = Str string | Num nat | Undefined

definition is_digit :: "char \<Rightarrow> bool" where
  "is_digit c = (c \<in> set ''0123456789'')"

definition string_of_arg :: "format_arg \<Rightarrow> string" where
  "string_of_arg a =
     (case a of Str s \<Rightarrow> s | Num n \<Rightarrow> string_of_nat n | Undefined \<Rightarrow> ''undefined'')"

definition replacement :: "string \<Rightarrow> format_arg list \<Rightarrow> string" where
  "replacement ds args =
     (let index = of_char (hd ds) - (48::nat) in
      if index < length args then string_of_arg (args ! index)
      else string_of_arg Undefined)"

text \<open>
  The second argument is \<open>Some ds\<close> after an opening brace followed by the digits
  \<open>ds\<close>, and \<open>None\<close> outside a placeholder.
\<close>

fun format :: "string \<Rightarrow> string option \<Rightarrow> format_arg list \<Rightarrow> string" where
  "format [] None args = []"
| "format [] (Some ds) args = CHR ''{'' # ds"
| "format (c # cs) None args =
     (if c = CHR ''{'' then format cs (Some []) args else c # format cs None args)"
| "format (c # cs) (Some ds) args =
     (if is_digit c then format cs (Some (ds @ [c])) args
      else if c = CHR ''}'' \<and> ds \<noteq> [] then replacement ds args @ format cs None args
      else if c = CHR ''{'' then CHR ''{'' # ds @ format cs (Some []) args
      else CHR ''{'' # ds @ c # format cs None args)"

definition localize :: "string \<Rightarrow> string \<Rightarrow> format_arg list \<Rightarrow> string" where
  "localize key message args = format message None args"

text \<open>\<^verbatim>\<open>a || b\<close> on optional strings: \<^verbatim>\<open>undefined\<close> and the empty string are falsy.\<close>

definition or_else :: "string option \<Rightarrow> string option \<Rightarrow> string option" where
  "or_else a b = (case a of None \<Rightarrow> b | Some x \<Rightarrow> if x = [] then b else Some x)"

definition arg_of :: "string option \<Rightarrow> format_arg" where
  "arg_of a = (case a of None \<Rightarrow> Undefined | Some x \<Rightarrow> Str x)"

section \<open>The attacher\<close>

subsection \<open>Primitives\<close>

definition emit :: "effect \<Rightarrow> world \<Rightarrow> world" where
  "emit e s = s\<lparr>effects := effects s @ [e]\<rparr>"

definition fire :: "notification \<Rightarrow> world \<Rightarrow> world" where
  "fire n s = emit (Fire n) s"

text \<open>Attempt \<open>t\<close> is now at control point \<open>k\<close>.\<close>

definition park :: "nat \<Rightarrow> task \<Rightarrow> world \<Rightarrow> world" where
  "park t k s = s\<lparr>tasks := (tasks s)(t \<mapsto> k)\<rparr>"

text \<open>
  Modelled from the spec: \<^verbatim>\<open>NeverCancelled\<close> (common/cancellation) is not among the
  sources. The specification has disconnect-triggered retries "run with an
  always-non-cancellable token", so \<^verbatim>\<open>isCancellationRequested\<close> of that token is false
  in every state; any other token is signalled once the environment has cancelled it.
\<close>

definition isCancellationRequested :: "cancellation_token \<Rightarrow> world \<Rightarrow> bool" where
  "isCancellationRequested tok s =
     (case tok of NeverCancelled \<Rightarrow> False | Token k \<Rightarrow> k \<in> cancelled s)"

definition browserURL :: "attach_params \<Rightarrow> string" where
  "browserURL params = ''http://'' @ address params @ '':'' @ string_of_nat (port params)"

subsection \<open>\<^verbatim>\<open>_attemptToAttach\<close> and \<^verbatim>\<open>acquireConnectionForBrowser\<close>\<close>

text \<open>
  \<^verbatim>\<open>_attemptToAttach\<close> after \<^verbatim>\<open>await this.acquireConnectionForBrowser(...)\<close>: an
  error string is returned; a connection is stored, the disconnect listener is
  registered (its subscription goes to \<^verbatim>\<open>_disposables\<close>), and
  \<^verbatim>\<open>BrowserTargetManager.connect\<close> is called and awaited.
\<close>

definition attemptToAttach_acquired ::
    "nat \<Rightarrow> attach_params \<Rightarrow> launch_context \<Rightarrow> string + nat \<Rightarrow> world \<Rightarrow> world" where
  "attemptToAttach_acquired t params context acquired s =
     (case acquired of
        Inl err \<Rightarrow> park t (Returned (Some err)) s
      | Inr c \<Rightarrow>
          (let sub = nextId s;
               s1 = s\<lparr>connection := Some c,
                      disposables := disposables s @ [sub],
                      listeners := listeners s @ [(sub, c, params, context)],
                      nextId := Suc sub\<rparr>
           in park t (AwaitConnect params context c) (emit (ConnectTM c) s1)))"

text \<open>
  The head of the \<^verbatim>\<open>while\<close> loop of \<^verbatim>\<open>acquireConnectionForBrowser\<close>: either the
  next \<^verbatim>\<open>launcher.attach\<close> is started and awaited, or the loop is left and the
  "Cancelled" message is returned to \<^verbatim>\<open>_attemptToAttach\<close>.
\<close>

definition acquireConnectionForBrowser ::
    "nat \<Rightarrow> attach_params \<Rightarrow> launch_context \<Rightarrow> world \<Rightarrow> world" where
  "acquireConnectionForBrowser t params context s =
     (if lastLaunchParams s = Some params
      then park t (AwaitAttach params context) (emit (Open (browserURL params)) s)
      else attemptToAttach_acquired t params context
             (Inl (localize ''attach.cannotConnect''
                     ''Cannot connect to the target at {0}: {1}''
                     [Str (browserURL params), Str ''Cancelled''])) s)"

text \<open>The \<^verbatim>\<open>catch (e)\<close> block of the loop; \<open>message\<close> is \<^verbatim>\<open>e.message\<close>.\<close>

definition acquire_catch ::
    "nat \<Rightarrow> attach_params \<Rightarrow> launch_context \<Rightarrow> string \<Rightarrow> world \<Rightarrow> world" where
  "acquire_catch t params context message s =
     (if isCancellationRequested (cancellationToken context) s
      then attemptToAttach_acquired t params context
             (Inl (localize ''attach.cannotConnect''
                     ''Cannot connect to the target at {0}: {1}''
                     [Str (browserURL params), Str message])) s
      else park t (AwaitDelay params context) (emit (Delay 1000) s))"

text \<open>\<^verbatim>\<open>_attemptToAttach\<close> from its entry to its first \<^verbatim>\<open>await\<close>.\<close>

definition attemptToAttach ::
    "nat \<Rightarrow> attach_params \<Rightarrow> launch_context \<Rightarrow> world \<Rightarrow> world" where
  "attemptToAttach t params context s = acquireConnectionForBrowser t params context s"

text \<open>
  \<^verbatim>\<open>_attemptToAttach\<close> after \<^verbatim>\<open>await BrowserTargetManager.connect(...)\<close>, whose
  result \<open>tm\<close> is a target manager or \<^verbatim>\<open>undefined\<close>.
\<close>

definition attemptToAttach_connected ::
    "nat \<Rightarrow> attach_params \<Rightarrow> launch_context \<Rightarrow> nat option \<Rightarrow> world \<Rightarrow> world" where
  "attemptToAttach_connected t params context tm s =
     (let s1 = s\<lparr>targetManager := tm\<rparr> in
      case tm of
        None \<Rightarrow> park t (Returned None) s1
      | Some m \<Rightarrow>
          park t (AwaitRace params context m)
            (emit (Delay (timeout params))
              (emit (WaitForMainTarget m)
                (s1\<lparr>tm_listeners := tm_listeners s1 @ [m]\<rparr>))))"

text \<open>
  \<^verbatim>\<open>_attemptToAttach\<close> after \<^verbatim>\<open>await Promise.race([...])\<close>: \<open>timedOut\<close> tells
  which of the two promises settled first.
\<close>

definition attemptToAttach_raced ::
    "nat \<Rightarrow> attach_params \<Rightarrow> bool \<Rightarrow> world \<Rightarrow> world" where
  "attemptToAttach_raced t params timedOut s =
     (if timedOut
      then park t (Returned (Some (localize ''chrome.attach.noMatchingTarget''
                     ''Can't find a valid target that matches {0} within {1}ms''
                     [arg_of (or_else (urlFilter params) (url params)),
                      Num (timeout params)]))) s
      else park t (Returned None) s)"

subsection \<open>\<^verbatim>\<open>launch\<close>\<close>

text \<open>
  \<^verbatim>\<open>launch\<close> either resolves at once or is suspended at
  \<^verbatim>\<open>await this._attemptToAttach(params, context)\<close> on attempt \<open>t\<close>.
\<close>

datatype launch_return = Resolved launch_result | Awaiting nat

definition launch :: "attach_params \<Rightarrow> launch_context \<Rightarrow> world \<Rightarrow> launch_return \<times> world" where
  "launch params context s =
     (if (type params \<noteq> Chrome \<and> type params \<noteq> Edge) \<or> request params \<noteq> ''attach''
      then (Resolved \<lparr>error = None, blockSessionTermination = Some False\<rparr>, s)
      else (let s1 = s\<lparr>lastLaunchParams := Some params\<rparr>;
                t = nextId s1
            in (Awaiting t, attemptToAttach t params context (s1\<lparr>nextId := Suc t\<rparr>))))"

text \<open>
  \<^verbatim>\<open>return error ? { error } : { blockSessionTermination: true }\<close>; the empty string is
  falsy as \<^verbatim>\<open>undefined\<close> is.
\<close>

definition launch_finish :: "string option \<Rightarrow> launch_result" where
  "launch_finish err =
     (case err of
        None \<Rightarrow> \<lparr>error = None, blockSessionTermination = Some True\<rparr>
      | Some e \<Rightarrow>
          if e = [] then \<lparr>error = None, blockSessionTermination = Some True\<rparr>
          else \<lparr>error = Some e, blockSessionTermination = None\<rparr>)"

text \<open>What the promise of a \<^verbatim>\<open>launch\<close> call has resolved to in state \<open>s\<close>, if it has.\<close>

definition launch_returned :: "launch_return \<Rightarrow> world \<Rightarrow> launch_result option" where
  "launch_returned r s =
     (case r of
        Resolved res \<Rightarrow> Some res
      | Awaiting t \<Rightarrow>
          (case tasks s t of
             Some (Returned err) \<Rightarrow> Some (launch_finish err)
           | _ \<Rightarrow> None))"

subsection \<open>Retry timer and disconnect handling\<close>

definition scheduleAttach :: "attach_params \<Rightarrow> launch_context \<Rightarrow> world \<Rightarrow> world" where
  "scheduleAttach params context s =
     (let k = nextId s in
      emit (SetTimeout k 1000)
        (s\<lparr>attemptTimer := Some k,
           timers := (timers s)(k \<mapsto> (params, context)),
           nextId := Suc k\<rparr>))"

text \<open>The callback given to \<^verbatim>\<open>setTimeout\<close> in \<^verbatim>\<open>_scheduleAttach\<close>.\<close>

definition scheduleAttach_callback :: "attach_params \<Rightarrow> launch_context \<Rightarrow> world \<Rightarrow> world" where
  "scheduleAttach_callback params context s =
     (let s1 = s\<lparr>attemptTimer := None\<rparr>;
          t = nextId s1
      in attemptToAttach t params (context\<lparr>cancellationToken := NeverCancelled\<rparr>)
           (s1\<lparr>nextId := Suc t\<rparr>))"

text \<open>The listener given to \<^verbatim>\<open>connection.onDisconnected\<close> in \<^verbatim>\<open>_attemptToAttach\<close>.\<close>

definition onDisconnected :: "attach_params \<Rightarrow> launch_context \<Rightarrow> world \<Rightarrow> world" where
  "onDisconnected params context s =
     (let s1 = s\<lparr>connection := None\<rparr>;
          s2 = (case targetManager s1 of
                  None \<Rightarrow> s1
                | Some m \<Rightarrow>
                    fire TargetListChanged ((emit (DisposeTM m) s1)\<lparr>targetManager := None\<rparr>))
      in if lastLaunchParams s2 = Some params \<and> restart params
         then scheduleAttach params context s2
         else fire (Terminated \<lparr>killed = True, code = 0\<rparr>) s2)"

subsection \<open>Target manager listeners\<close>

text \<open>
  The listeners on \<^verbatim>\<open>serviceWorkerModel.onDidChange\<close>, \<^verbatim>\<open>frameModel.onFrameNavigated\<close>
  and \<^verbatim>\<open>onTargetAdded\<close>.
\<close>

definition onTargetListEvent :: "world \<Rightarrow> world" where
  "onTargetListEvent s = fire TargetListChanged s"

text \<open>
  The listener on \<^verbatim>\<open>onTargetRemoved\<close>; \<open>remaining\<close> is what
  \<^verbatim>\<open>targetManager.targetList()\<close> returns when the listener runs.
\<close>

definition onTargetRemoved :: "target \<Rightarrow> target list \<Rightarrow> world \<Rightarrow> world" where
  "onTargetRemoved tgt remaining s =
     (let s1 = fire TargetListChanged s in
      if length remaining = 0 \<and> canAttach tgt
      then fire (Terminated \<lparr>killed = True, code = 0\<rparr>) s1
      else s1)"

subsection \<open>\<^verbatim>\<open>terminate\<close>, \<^verbatim>\<open>disconnect\<close>, \<^verbatim>\<open>restart\<close>, \<^verbatim>\<open>dispose\<close>\<close>

text \<open>
  \<^verbatim>\<open>close()\<close> is a call on the connection; the connection reports its end afterwards,
  through \<^verbatim>\<open>onDisconnected\<close>.
\<close>

definition terminate :: "world \<Rightarrow> world" where
  "terminate s =
     (let s1 = s\<lparr>lastLaunchParams := None\<rparr> in
      case connection s1 of
        None \<Rightarrow> s1
      | Some c \<Rightarrow> emit (CloseConnection c) s1)"

definition disconnect :: "world \<Rightarrow> world" where
  "disconnect s = terminate s"

definition restart_attacher :: "world \<Rightarrow> world" where
  "restart_attacher s = s"

text \<open>
  \<^verbatim>\<open>targetList()\<close>; \<open>managerTargetList m\<close> is what \<^verbatim>\<open>targetList()\<close> of target
  manager \<open>m\<close> returns.
\<close>

definition targetList :: "(nat \<Rightarrow> target list) \<Rightarrow> world \<Rightarrow> target list" where
  "targetList managerTargetList s =
     (case targetManager s of None \<Rightarrow> [] | Some m \<Rightarrow> managerTargetList m)"

text \<open>
  Modelled from the spec: the event emitters (common/events) are not among the sources.
  \<^verbatim>\<open>onDisconnected(callback)\<close> gives a subscription; releasing it (\<^verbatim>\<open>dispose()\<close> of
  the subscription) ends the delivery to its listener.
\<close>

definition dispose_subscription :: "nat \<Rightarrow> world \<Rightarrow> world" where
  "dispose_subscription d s =
     emit (DisposeSubscription d)
       (s\<lparr>listeners := filter (\<lambda>l. fst l \<noteq> d) (listeners s)\<rparr>)"

definition clearTimeout :: "nat \<Rightarrow> world \<Rightarrow> world" where
  "clearTimeout k s = emit (ClearTimeout k) (s\<lparr>timers := (timers s)(k := None)\<rparr>)"

definition dispose :: "world \<Rightarrow> world" where
  "dispose s =
     (let s1 = fold dispose_subscription (disposables s) s;
          s2 = s1\<lparr>disposables := []\<rparr>;
          s3 = (case attemptTimer s2 of None \<Rightarrow> s2 | Some k \<Rightarrow> clearTimeout k s2)
      in case targetManager s3 of
           None \<Rightarrow> s3
         | Some m \<Rightarrow> emit (DisposeTM m) s3)"

section \<open>The environment\<close>

text \<open>
  What can happen next: a call of a public method, a promise the attacher awaits is
  settled, a timer expires, an emitter the attacher listens to fires, a cancellation
  token is signalled.
\<close>

datatype action =
    Launch attach_params launch_context
  | Terminate
  | Disconnect
  | Restart
  | Dispose
  | AttachResolved nat nat
  | AttachRejected nat string
  | DelayElapsed nat
  | ConnectResolved nat "nat option"
  | MainTargetFound nat
  | TimeoutElapsed nat
  | Disconnected nat
  | TimerFired nat
  | TargetAdded nat
  | FrameNavigated nat
  | ServiceWorkersChanged nat
  | TargetRemoved nat target "target list"
  | Cancel nat

text \<open>
  Modelled from the spec: the event emitters (common/events) are not among the sources;
  the specification gives them "synchronous, in-order delivery to all current
  subscribers". An emitter calls each of its listeners, in the order of their
  registration.
\<close>

definition fire_disconnected :: "nat \<Rightarrow> world \<Rightarrow> world" where
  "fire_disconnected c s =
     fold (\<lambda>l s'. onDisconnected (fst (snd (snd l))) (snd (snd (snd l))) s')
       (filter (\<lambda>l. fst (snd l) = c) (listeners s)) s"

definition fire_tm :: "nat \<Rightarrow> (world \<Rightarrow> world) \<Rightarrow> world \<Rightarrow> world" where
  "fire_tm m listener s = fold (\<lambda>_ s'. listener s') (filter (\<lambda>m'. m' = m) (tm_listeners s)) s"

text \<open>
  An action that settles a promise nobody awaits (the attempt is not suspended there),
  or expires a timer that is not pending, changes nothing.
\<close>

fun step :: "action \<Rightarrow> world \<Rightarrow> world" where
  "step (Launch params context) s = snd (launch params context s)"
| "step Terminate s = terminate s"
| "step Disconnect s = disconnect s"
| "step Restart s = restart_attacher s"
| "step Dispose s = dispose s"
| "step (AttachResolved t c) s =
     (case tasks s t of
        Some (AwaitAttach params context) \<Rightarrow> attemptToAttach_acquired t params context (Inr c) s
      | _ \<Rightarrow> s)"
| "step (AttachRejected t message) s =
     (case tasks s t of
        Some (AwaitAttach params context) \<Rightarrow> acquire_catch t params context message s
      | _ \<Rightarrow> s)"
| "step (DelayElapsed t) s =
     (case tasks s t of
        Some (AwaitDelay params context) \<Rightarrow> acquireConnectionForBrowser t params context s
      | _ \<Rightarrow> s)"
| "step (ConnectResolved t tm) s =
     (case tasks s t of
        Some (AwaitConnect params context c) \<Rightarrow> attemptToAttach_connected t params context tm s
      | _ \<Rightarrow> s)"
| "step (MainTargetFound t) s =
     (case tasks s t of
        Some (AwaitRace params context m) \<Rightarrow> attemptToAttach_raced t params False s
      | _ \<Rightarrow> s)"
| "step (TimeoutElapsed t) s =
     (case tasks s t of
        Some (AwaitRace params context m) \<Rightarrow> attemptToAttach_raced t params True s
      | _ \<Rightarrow> s)"
| "step (Disconnected c) s = fire_disconnected c s"
| "step (TimerFired k) s =
     (case timers s k of
        None \<Rightarrow> s
      | Some (params, context) \<Rightarrow>
          scheduleAttach_callback params context (s\<lparr>timers := (timers s)(k := None)\<rparr>))"
| "step (TargetAdded m) s = fire_tm m onTargetListEvent s"
| "step (FrameNavigated m) s = fire_tm m onTargetListEvent s"
| "step (ServiceWorkersChanged m) s = fire_tm m onTargetListEvent s"
| "step (TargetRemoved m tgt remaining) s = fire_tm m (onTargetRemoved tgt remaining) s"
| "step (Cancel k) s = s\<lparr>cancelled := insert k (cancelled s)\<rparr>"

definition run :: "action list \<Rightarrow> world \<Rightarrow> world" where
  "run as s = fold step as s"

text \<open>
  The environment of an acquire loop whose open attempts fail with the given
  messages, each failure followed by the end of the retry delay.
\<close>

fun failures :: "nat \<Rightarrow> string list \<Rightarrow> action list" where
  "failures t [] = []"
| "failures t (message # messages) =
     AttachRejected t message # DelayElapsed t # failures t messages"

section \<open>A concrete session\<close>

text \<open>
  The scenario of the specification: attach to \<^verbatim>\<open>127.0.0.1:9222\<close> with a timeout of
  3000 ms and \<^verbatim>\<open>restart\<close> set. \<open>paramsB\<close> is a second configuration object with
  the same field values.
\<close>

definition paramsA :: attach_params where
  "paramsA = \<lparr>ident = 1, type = Chrome, request = ''attach'', address = ''127.0.0.1'',
              port = 9222, restart = True, urlFilter = Some ''*'', url = None,
              timeout = 3000\<rparr>"

definition paramsB :: attach_params where
  "paramsB = paramsA\<lparr>ident := 2\<rparr>"

definition ctx :: launch_context where
  "ctx = \<lparr>cancellationToken = Token 0, telemetryReporter = 0, targetOrigin = 0\<rparr>"

text \<open>
  \<^verbatim>\<open>launch(paramsA, ctx)\<close> has been called; then the first open attempt has given
  connection 7; then \<^verbatim>\<open>BrowserTargetManager.connect\<close> has given target manager 5;
  then the main target has been found.
\<close>

definition attaching :: world where
  "attaching = run [Launch paramsA ctx] init"

definition connecting :: world where
  "connecting = run [AttachResolved 0 7] attaching"

definition racing :: world where
  "racing = run [ConnectResolved 0 (Some 5)] connecting"

definition attached :: world where
  "attached = run [MainTargetFound 0] racing"

text \<open>
  From \<open>attached\<close>, connection 7 has been lost and the retry is scheduled. From
  \<open>attaching\<close>, the token of \<open>ctx\<close> has been signalled. From \<open>attaching\<close>, the
  first open attempt has failed and, during the retry delay, \<^verbatim>\<open>launch(paramsB, ctx)\<close>
  has been called.
\<close>

definition retrying :: world where
  "retrying = run [Disconnected 7] attached"

definition cancelling :: world where
  "cancelling = run [Cancel 0] attaching"

definition superseded :: world where
  "superseded = run [AttachRejected 0 ''connection refused'', Launch paramsB ctx] attaching"

text \<open>From \<open>retrying\<close>, \<^verbatim>\<open>launch(paramsB, ctx)\<close> has been called.\<close>

definition relaunched :: world where
  "relaunched = run [Launch paramsB ctx] retrying"

text \<open>
  From \<open>relaunched\<close>, the open attempt for \<open>paramsB\<close> has given connection 8 and
  that connection has been lost, while the retry timer set for \<open>paramsA\<close> is still
  pending: a second retry timer is set.
\<close>

definition two_timers :: world where
  "two_timers = run [AttachResolved 3 8, Disconnected 8] relaunched"

text \<open>From \<open>attaching\<close>, the first open attempt has failed and the retry delay runs.\<close>

definition delaying :: world where
  "delaying = run [AttachRejected 0 ''connection refused''] attaching"

text \<open>
  A configuration whose \<^verbatim>\<open>urlFilter\<close> is the empty string and whose \<^verbatim>\<open>url\<close> is
  set, with a timeout of 5000 ms, and the session that has been launched with it and
  has reached the race for the main target.
\<close>

definition paramsU :: attach_params where
  "paramsU = \<lparr>ident = 3, type = Edge, request = ''attach'', address = ''localhost'',
              port = 9229, restart = False, urlFilter = Some [],
              url = Some ''http://localhost:8080/'', timeout = 5000\<rparr>"

definition racingU :: world where
  "racingU = run [Launch paramsU ctx, AttachResolved 0 7, ConnectResolved 0 (Some 5)] init"

section \<open>Auxiliary facts\<close>

lemmas attacher_defs = emit_def fire_def park_def launch_def attemptToAttach_def
  acquireConnectionForBrowser_def attemptToAttach_acquired_def acquire_catch_def
  attemptToAttach_connected_def attemptToAttach_raced_def

lemma cannotConnect_message:
  "localize key ''Cannot connect to the target at {0}: {1}'' [Str u, Str c]
     = ''Cannot connect to the target at '' @ u @ '': '' @ c"
  by (simp add: localize_def is_digit_def replacement_def string_of_arg_def)

lemma noMatchingTarget_message:
  "localize key ''Can't find a valid target that matches {0} within {1}ms'' [a, Num n]
     = ''Can't find a valid target that matches '' @ string_of_arg a @ '' within ''
         @ string_of_nat n @ ''ms''"
  by (simp add: localize_def is_digit_def replacement_def string_of_arg_def)

lemma paramsA_fields:
  "type paramsA = Chrome" "request paramsA = ''attach''" "restart paramsA"
  "timeout paramsA = 3000" "urlFilter paramsA = Some ''*''" "url paramsA = None"
  by (simp_all add: paramsA_def)

lemma string_of_nat_3000: "string_of_nat 3000 = ''3000''"
  by (simp add: string_of_nat.simps)

lemma browserURL_paramsA: "browserURL paramsA = ''http://127.0.0.1:9222''"
  by (simp add: browserURL_def paramsA_def string_of_nat.simps)

lemma attaching_eq:
  "attaching = init\<lparr>lastLaunchParams := Some paramsA, tasks := [0 \<mapsto> AwaitAttach paramsA ctx],
      nextId := 1, effects := [Open ''http://127.0.0.1:9222'']\<rparr>"
  by (simp add: attaching_def run_def init_def attacher_defs browserURL_paramsA paramsA_fields)

lemma connecting_eq:
  "connecting = init\<lparr>connection := Some 7, disposables := [1], lastLaunchParams := Some paramsA,
      tasks := [0 \<mapsto> AwaitConnect paramsA ctx 7], listeners := [(1, 7, paramsA, ctx)],
      nextId := 2, effects := [Open ''http://127.0.0.1:9222'', ConnectTM 7]\<rparr>"
  by (simp add: connecting_def attaching_eq run_def init_def attacher_defs)

lemma racing_eq:
  "racing = init\<lparr>connection := Some 7, targetManager := Some 5, disposables := [1],
      lastLaunchParams := Some paramsA,
      tasks := [0 \<mapsto> AwaitRace paramsA ctx 5], listeners := [(1, 7, paramsA, ctx)],
      tm_listeners := [5], nextId := 2,
      effects := [Open ''http://127.0.0.1:9222'', ConnectTM 7, WaitForMainTarget 5, Delay 3000]\<rparr>"
  by (simp add: racing_def connecting_eq run_def init_def attacher_defs paramsA_fields)

lemma attached_eq:
  "attached = init\<lparr>connection := Some 7, targetManager := Some 5, disposables := [1],
      lastLaunchParams := Some paramsA,
      tasks := [0 \<mapsto> Returned None], listeners := [(1, 7, paramsA, ctx)], tm_listeners := [5],
      nextId := 2,
      effects := [Open ''http://127.0.0.1:9222'', ConnectTM 7, WaitForMainTarget 5, Delay 3000]\<rparr>"
  by (simp add: attached_def racing_eq run_def init_def attacher_defs)

lemma paramsB_fields:
  "type paramsB = Chrome" "request paramsB = ''attach''" "paramsA \<noteq> paramsB"
  "browserURL paramsB = ''http://127.0.0.1:9222''"
  by (simp_all add: paramsB_def paramsA_def browserURL_def string_of_nat.simps)

lemma ctx_fields: "cancellationToken ctx = Token 0"
  by (simp add: ctx_def)

lemma run_Cons [simp]: "run (a # as) s = run as (step a s)"
  by (simp add: run_def)

lemma run_Nil [simp]: "run [] s = s"
  by (simp add: run_def)

lemma run_append: "run (as @ bs) s = run bs (run as s)"
  by (simp add: run_def)

lemma isCancellationRequested_effects [simp]:
  "isCancellationRequested tok (s\<lparr>effects := es\<rparr>) = isCancellationRequested tok s"
  by (simp add: isCancellationRequested_def split: cancellation_token.splits)

subsection \<open>The pieces of the attach attempt, as state updates\<close>

lemma acquire_catch_eq:
  "acquire_catch t params context message s =
     (if isCancellationRequested (cancellationToken context) s
      then s\<lparr>tasks := (tasks s)(t \<mapsto> Returned (Some
             (''Cannot connect to the target at '' @ browserURL params @ '': '' @ message)))\<rparr>
      else s\<lparr>tasks := (tasks s)(t \<mapsto> AwaitDelay params context),
             effects := effects s @ [Delay 1000]\<rparr>)"
  by (simp add: acquire_catch_def attemptToAttach_acquired_def park_def emit_def
        cannotConnect_message)

lemma acquireConnectionForBrowser_eq:
  "acquireConnectionForBrowser t params context s =
     (if lastLaunchParams s = Some params
      then s\<lparr>tasks := (tasks s)(t \<mapsto> AwaitAttach params context),
             effects := effects s @ [Open (browserURL params)]\<rparr>
      else s\<lparr>tasks := (tasks s)(t \<mapsto> Returned (Some
             (''Cannot connect to the target at '' @ browserURL params @ '': Cancelled'')))\<rparr>)"
  by (simp add: acquireConnectionForBrowser_def attemptToAttach_acquired_def park_def emit_def
        cannotConnect_message)

lemma fire_disconnected_single:
  assumes "filter (\<lambda>l. fst (snd l) = c) (listeners s) = [(sub, c, params, context)]"
  shows "fire_disconnected c s = onDisconnected params context s"
  using assms by (simp add: fire_disconnected_def)

lemma onDisconnected_eq:
  "onDisconnected params context s =
     (if lastLaunchParams s = Some params \<and> restart params
      then s\<lparr>attemptTimer := Some (nextId s), connection := None, targetManager := None,
             timers := (timers s)(nextId s \<mapsto> (params, context)),
             nextId := Suc (nextId s),
             effects := effects s
               @ (case targetManager s of None \<Rightarrow> []
                  | Some m \<Rightarrow> [DisposeTM m, Fire TargetListChanged])
               @ [SetTimeout (nextId s) 1000]\<rparr>
      else s\<lparr>connection := None, targetManager := None,
             effects := effects s
               @ (case targetManager s of None \<Rightarrow> []
                  | Some m \<Rightarrow> [DisposeTM m, Fire TargetListChanged])
               @ [Fire (Terminated \<lparr>killed = True, code = 0\<rparr>)]\<rparr>)"
  by (simp add: onDisconnected_def scheduleAttach_def fire_def emit_def Let_def
        split: option.splits)

subsection \<open>What leaves the suspended attempts alone\<close>

lemma tasks_onDisconnected [simp]: "tasks (onDisconnected params context s) = tasks s"
  by (simp add: onDisconnected_def scheduleAttach_def fire_def emit_def Let_def
        split: option.splits)

lemma tasks_fold_onDisconnected:
  "tasks (fold (\<lambda>l s'. onDisconnected (f l) (g l) s') ls s) = tasks s"
  by (induction ls arbitrary: s) simp_all

lemma tasks_fire_disconnected [simp]: "tasks (fire_disconnected c s) = tasks s"
  by (simp add: fire_disconnected_def tasks_fold_onDisconnected)

lemma tasks_fold_listener:
  assumes "\<And>s'. tasks (f s') = tasks s'"
  shows "tasks (fold (\<lambda>_ s'. f s') ms s) = tasks s"
  using assms by (induction ms arbitrary: s) simp_all

lemma tasks_fire_tm:
  assumes "\<And>s'. tasks (f s') = tasks s'"
  shows "tasks (fire_tm m f s) = tasks s"
  using assms by (simp add: fire_tm_def tasks_fold_listener)

lemma tasks_onTargetListEvent [simp]: "tasks (onTargetListEvent s) = tasks s"
  by (simp add: onTargetListEvent_def fire_def emit_def)

lemma tasks_onTargetRemoved [simp]: "tasks (onTargetRemoved tgt remaining s) = tasks s"
  by (simp add: onTargetRemoved_def fire_def emit_def Let_def)

lemma fold_dispose_subscription:
  "fold dispose_subscription ds s
     = s\<lparr>listeners := filter (\<lambda>l. fst l \<notin> set ds) (listeners s),
          effects := effects s @ map DisposeSubscription ds\<rparr>"
proof (induction ds arbitrary: s)
  case Nil
  show ?case by simp
next
  case (Cons d ds)
  have "filter (\<lambda>l. fst l \<notin> set ds) (filter (\<lambda>l. fst l \<noteq> d) (listeners s))
          = filter (\<lambda>l. fst l \<notin> set (d # ds)) (listeners s)"
    by (induction "listeners s") auto
  with Cons show ?case
    by (simp add: dispose_subscription_def emit_def)
qed

lemma dispose_eq:
  "dispose s
     = s\<lparr>disposables := [],
          timers := (case attemptTimer s of None \<Rightarrow> timers s | Some k \<Rightarrow> (timers s)(k := None)),
          listeners := filter (\<lambda>l. fst l \<notin> set (disposables s)) (listeners s),
          effects := effects s @ map DisposeSubscription (disposables s)
            @ (case attemptTimer s of None \<Rightarrow> [] | Some k \<Rightarrow> [ClearTimeout k])
            @ (case targetManager s of None \<Rightarrow> [] | Some m \<Rightarrow> [DisposeTM m])\<rparr>"
  by (simp add: dispose_def fold_dispose_subscription clearTimeout_def emit_def Let_def
        split: option.splits)

lemma tasks_dispose [simp]: "tasks (dispose s) = tasks s"
  by (simp add: dispose_eq)

lemma tasks_terminate [simp]: "tasks (terminate s) = tasks s"
  by (simp add: terminate_def emit_def Let_def split: option.splits)

lemma tasks_attemptToAttach_other:
  "t \<noteq> t' \<Longrightarrow> tasks (attemptToAttach t' params context s) t = tasks s t"
  by (simp add: attemptToAttach_def acquireConnectionForBrowser_def attemptToAttach_acquired_def
        park_def emit_def)


lemma step_keeps_other_tasks:
  assumes "t < nextId s"
    and "\<forall>c. a \<noteq> AttachResolved t c" and "\<forall>m. a \<noteq> AttachRejected t m"
    and "a \<noteq> DelayElapsed t" and "\<forall>tm. a \<noteq> ConnectResolved t tm"
    and "a \<noteq> MainTargetFound t" and "a \<noteq> TimeoutElapsed t"
  shows "tasks (step a s) t = tasks s t"
proof (cases a)
  case (Launch p cx)
  with assms(1) show ?thesis
    by (simp add: launch_def Let_def tasks_attemptToAttach_other)
next
  case (TimerFired k)
  with assms(1) show ?thesis
    by (simp add: scheduleAttach_callback_def Let_def tasks_attemptToAttach_other
          split: option.splits)
next
  case (AttachResolved t' c)
  with assms(2) have "t' \<noteq> t" by auto
  with AttachResolved show ?thesis
    by (simp add: attemptToAttach_acquired_def park_def emit_def Let_def
          split: option.splits task.splits)
next
  case (AttachRejected t' m)
  with assms(3) have "t' \<noteq> t" by auto
  with AttachRejected show ?thesis
    by (simp add: acquire_catch_eq split: option.splits task.splits)
next
  case (DelayElapsed t')
  with assms(4) have "t' \<noteq> t" by auto
  with DelayElapsed show ?thesis
    by (simp add: acquireConnectionForBrowser_eq split: option.splits task.splits)
next
  case (ConnectResolved t' tm)
  with assms(5) have "t' \<noteq> t" by auto
  with ConnectResolved show ?thesis
    by (simp add: attemptToAttach_connected_def park_def emit_def Let_def
          split: option.splits task.splits)
next
  case (MainTargetFound t')
  with assms(6) have "t' \<noteq> t" by auto
  with MainTargetFound show ?thesis
    by (simp add: attemptToAttach_raced_def park_def split: option.splits task.splits)
next
  case (TimeoutElapsed t')
  with assms(7) have "t' \<noteq> t" by auto
  with TimeoutElapsed show ?thesis
    by (simp add: attemptToAttach_raced_def park_def split: option.splits task.splits)
qed (simp_all add: disconnect_def restart_attacher_def tasks_fire_tm)

subsection \<open>What leaves the current configuration alone\<close>

lemma lastLaunchParams_onDisconnected [simp]:
  "lastLaunchParams (onDisconnected params context s) = lastLaunchParams s"
  by (simp add: onDisconnected_eq)

lemma nextId_onDisconnected: "nextId s \<le> nextId (onDisconnected params context s)"
  by (simp add: onDisconnected_eq)

lemma fold_onDisconnected_frame:
  "lastLaunchParams (fold (\<lambda>l s'. onDisconnected (f l) (g l) s') ls s) = lastLaunchParams s
   \<and> nextId s \<le> nextId (fold (\<lambda>l s'. onDisconnected (f l) (g l) s') ls s)"
proof (induction ls arbitrary: s)
  case Nil
  show ?case by simp
next
  case (Cons l ls)
  from Cons [of "onDisconnected (f l) (g l) s"] nextId_onDisconnected [of s "f l" "g l"]
  show ?case by simp
qed

lemma fire_disconnected_frame:
  "lastLaunchParams (fire_disconnected c s) = lastLaunchParams s"
  "nextId s \<le> nextId (fire_disconnected c s)"
  by (simp_all add: fire_disconnected_def fold_onDisconnected_frame)

lemma fold_listener_frame:
  assumes "\<And>s'. lastLaunchParams (f s') = lastLaunchParams s' \<and> nextId (f s') = nextId s'"
  shows "lastLaunchParams (fold (\<lambda>_ s'. f s') ms s) = lastLaunchParams s
         \<and> nextId (fold (\<lambda>_ s'. f s') ms s) = nextId s"
  using assms by (induction ms arbitrary: s) simp_all

lemma fire_tm_frame:
  assumes "\<And>s'. lastLaunchParams (f s') = lastLaunchParams s' \<and> nextId (f s') = nextId s'"
  shows "lastLaunchParams (fire_tm m f s) = lastLaunchParams s"
    and "nextId (fire_tm m f s) = nextId s"
  by (simp_all add: fire_tm_def fold_listener_frame [OF assms])

lemma onTargetListEvent_frame:
  "lastLaunchParams (onTargetListEvent s) = lastLaunchParams s
   \<and> nextId (onTargetListEvent s) = nextId s"
  by (simp add: onTargetListEvent_def fire_def emit_def)

lemma onTargetRemoved_frame:
  "lastLaunchParams (onTargetRemoved tgt remaining s) = lastLaunchParams s
   \<and> nextId (onTargetRemoved tgt remaining s) = nextId s"
  by (simp add: onTargetRemoved_def fire_def emit_def Let_def)

lemma step_keeps_superseded:
  assumes "lastLaunchParams s \<noteq> Some params" and "\<forall>c. a \<noteq> Launch params c"
  shows "lastLaunchParams (step a s) \<noteq> Some params"
proof (cases a)
  case (Launch p cx)
  with assms show ?thesis
    by (auto simp add: launch_def Let_def attemptToAttach_def acquireConnectionForBrowser_eq)
next
  case (TimerFired k)
  with assms show ?thesis
    by (auto simp add: scheduleAttach_callback_def Let_def attemptToAttach_def
          acquireConnectionForBrowser_eq split: option.splits)
next
  case (AttachResolved t' c)
  with assms show ?thesis
    by (auto simp add: attemptToAttach_acquired_def park_def emit_def Let_def
          split: option.splits task.splits)
next
  case (AttachRejected t' m)
  with assms show ?thesis
    by (auto simp add: acquire_catch_eq split: option.splits task.splits)
next
  case (DelayElapsed t')
  with assms show ?thesis
    by (auto simp add: acquireConnectionForBrowser_eq split: option.splits task.splits)
next
  case (ConnectResolved t' tm)
  with assms show ?thesis
    by (auto simp add: attemptToAttach_connected_def park_def emit_def Let_def
          split: option.splits task.splits)
next
  case (MainTargetFound t')
  with assms show ?thesis
    by (auto simp add: attemptToAttach_raced_def park_def split: option.splits task.splits)
next
  case (TimeoutElapsed t')
  with assms show ?thesis
    by (auto simp add: attemptToAttach_raced_def park_def split: option.splits task.splits)
qed (insert assms, simp_all add: disconnect_def restart_attacher_def terminate_def emit_def
      Let_def dispose_eq fire_disconnected_frame fire_tm_frame onTargetListEvent_frame
      onTargetRemoved_frame split: option.splits)

lemma step_nextId_mono: "nextId s \<le> nextId (step a s)"
proof (cases a)
  case (Launch p cx)
  then show ?thesis
    by (simp add: launch_def Let_def attemptToAttach_def acquireConnectionForBrowser_eq)
next
  case (TimerFired k)
  then show ?thesis
    by (simp add: scheduleAttach_callback_def Let_def attemptToAttach_def
          acquireConnectionForBrowser_eq split: option.splits)
next
  case (AttachResolved t' c)
  then show ?thesis
    by (simp add: attemptToAttach_acquired_def park_def emit_def Let_def
          split: option.splits task.splits)
next
  case (AttachRejected t' m)
  then show ?thesis
    by (simp add: acquire_catch_eq split: option.splits task.splits)
next
  case (DelayElapsed t')
  then show ?thesis
    by (simp add: acquireConnectionForBrowser_eq split: option.splits task.splits)
next
  case (ConnectResolved t' tm)
  then show ?thesis
    by (simp add: attemptToAttach_connected_def park_def emit_def Let_def
          split: option.splits task.splits)
next
  case (MainTargetFound t')
  then show ?thesis
    by (simp add: attemptToAttach_raced_def park_def split: option.splits task.splits)
next
  case (TimeoutElapsed t')
  then show ?thesis
    by (simp add: attemptToAttach_raced_def park_def split: option.splits task.splits)
qed (simp_all add: disconnect_def restart_attacher_def terminate_def emit_def Let_def
      dispose_eq fire_disconnected_frame fire_tm_frame onTargetListEvent_frame
      onTargetRemoved_frame split: option.splits)

lemma step_superseded_delay:
  assumes "lastLaunchParams s \<noteq> Some params" and "t < nextId s"
    and "tasks s t = Some (AwaitDelay params context)
         \<or> tasks s t = Some (Returned (Some
              (''Cannot connect to the target at '' @ browserURL params @ '': Cancelled'')))"
  shows "tasks (step a s) t = Some (AwaitDelay params context)
         \<or> tasks (step a s) t = Some (Returned (Some
              (''Cannot connect to the target at '' @ browserURL params @ '': Cancelled'')))"
proof -
  consider (res) c where "a = AttachResolved t c" | (rej) m where "a = AttachRejected t m"
    | (del) "a = DelayElapsed t" | (con) tm where "a = ConnectResolved t tm"
    | (mtf) "a = MainTargetFound t" | (tmo) "a = TimeoutElapsed t"
    | (other) "\<forall>c. a \<noteq> AttachResolved t c" "\<forall>m. a \<noteq> AttachRejected t m"
        "a \<noteq> DelayElapsed t" "\<forall>tm. a \<noteq> ConnectResolved t tm"
        "a \<noteq> MainTargetFound t" "a \<noteq> TimeoutElapsed t"
    by blast
  then show ?thesis
  proof cases
    case del
    with assms show ?thesis
      by (auto simp add: acquireConnectionForBrowser_eq)
  next
    case other
    from step_keeps_other_tasks [OF assms(2) other] assms(3) show ?thesis
      by simp
  qed (insert assms(3), auto)
qed

subsection \<open>Every disconnect listener has its subscription in the list\<close>

lemma listeners_onDisconnected:
  "listeners (onDisconnected params context s) = listeners s
   \<and> disposables (onDisconnected params context s) = disposables s"
  by (simp add: onDisconnected_eq)

lemma fold_onDisconnected_listeners:
  "listeners (fold (\<lambda>l s'. onDisconnected (f l) (g l) s') ls s) = listeners s
   \<and> disposables (fold (\<lambda>l s'. onDisconnected (f l) (g l) s') ls s) = disposables s"
  by (induction ls arbitrary: s) (simp_all add: listeners_onDisconnected)

lemma fold_listener_listeners:
  assumes "\<And>s'. listeners (f s') = listeners s' \<and> disposables (f s') = disposables s'"
  shows "listeners (fold (\<lambda>_ s'. f s') ms s) = listeners s
         \<and> disposables (fold (\<lambda>_ s'. f s') ms s) = disposables s"
  using assms by (induction ms arbitrary: s) simp_all

lemma onTargetListEvent_listeners:
  "listeners (onTargetListEvent s) = listeners s
   \<and> disposables (onTargetListEvent s) = disposables s"
  by (simp add: onTargetListEvent_def fire_def emit_def)

lemma onTargetRemoved_listeners:
  "listeners (onTargetRemoved tgt remaining s) = listeners s
   \<and> disposables (onTargetRemoved tgt remaining s) = disposables s"
  by (simp add: onTargetRemoved_def fire_def emit_def Let_def)

lemma step_listeners_disposable:
  assumes "fst ` set (listeners s) \<subseteq> set (disposables s)"
  shows "fst ` set (listeners (step a s)) \<subseteq> set (disposables (step a s))"
proof (cases a)
  case (Launch p cx)
  with assms show ?thesis
    by (simp add: launch_def Let_def attemptToAttach_def acquireConnectionForBrowser_eq)
next
  case (TimerFired k)
  with assms show ?thesis
    by (simp add: scheduleAttach_callback_def Let_def attemptToAttach_def
          acquireConnectionForBrowser_eq split: option.splits)
next
  case (AttachResolved t' c)
  with assms show ?thesis
    by (auto simp add: attemptToAttach_acquired_def park_def emit_def Let_def
          split: option.splits task.splits)
next
  case (AttachRejected t' m)
  with assms show ?thesis
    by (simp add: acquire_catch_eq split: option.splits task.splits)
next
  case (DelayElapsed t')
  with assms show ?thesis
    by (simp add: acquireConnectionForBrowser_eq split: option.splits task.splits)
next
  case (ConnectResolved t' tm)
  with assms show ?thesis
    by (simp add: attemptToAttach_connected_def park_def emit_def Let_def
          split: option.splits task.splits)
next
  case (MainTargetFound t')
  with assms show ?thesis
    by (simp add: attemptToAttach_raced_def park_def split: option.splits task.splits)
next
  case (TimeoutElapsed t')
  with assms show ?thesis
    by (simp add: attemptToAttach_raced_def park_def split: option.splits task.splits)
next
  case Dispose
  with assms show ?thesis
    by (auto simp add: dispose_eq)
next
  case (Disconnected c)
  with assms show ?thesis
    by (simp add: fire_disconnected_def fold_onDisconnected_listeners)
next
  case (TargetAdded m)
  with assms show ?thesis
    by (simp add: fire_tm_def fold_listener_listeners [OF onTargetListEvent_listeners])
next
  case (FrameNavigated m)
  with assms show ?thesis
    by (simp add: fire_tm_def fold_listener_listeners [OF onTargetListEvent_listeners])
next
  case (ServiceWorkersChanged m)
  with assms show ?thesis
    by (simp add: fire_tm_def fold_listener_listeners [OF onTargetListEvent_listeners])
next
  case (TargetRemoved m tgt remaining)
  with assms show ?thesis
    by (simp add: fire_tm_def fold_listener_listeners [OF onTargetRemoved_listeners])
qed (insert assms, simp_all add: disconnect_def restart_attacher_def terminate_def emit_def
      Let_def split: option.splits)

lemma run_listeners_disposable:
  assumes "fst ` set (listeners s) \<subseteq> set (disposables s)"
  shows "fst ` set (listeners (run as s)) \<subseteq> set (disposables (run as s))"
  using assms
proof (induction as arbitrary: s)
  case Nil
  then show ?case by simp
next
  case (Cons a as)
  from step_listeners_disposable [OF Cons.prems] show ?case
    by (simp del: step.simps) (rule Cons.IH)
qed

lemma reachable_listeners_disposable:
  "fst ` set (listeners (run as init)) \<subseteq> set (disposables (run as init))"
  by (rule run_listeners_disposable) (simp add: init_def)

subsection \<open>The concrete session, computed\<close>

lemma retrying_eq:
  "retrying = init\<lparr>attemptTimer := Some 2, disposables := [1],
      lastLaunchParams := Some paramsA,
      tasks := [0 \<mapsto> Returned None], timers := [2 \<mapsto> (paramsA, ctx)],
      listeners := [(1, 7, paramsA, ctx)], tm_listeners := [5], nextId := 3,
      effects := [Open ''http://127.0.0.1:9222'', ConnectTM 7, WaitForMainTarget 5, Delay 3000,
                  DisposeTM 5, Fire TargetListChanged, SetTimeout 2 1000]\<rparr>"
  by (simp add: retrying_def attached_eq init_def fire_disconnected_def onDisconnected_eq
        paramsA_fields)

lemma cancelling_eq:
  "cancelling = init\<lparr>lastLaunchParams := Some paramsA, tasks := [0 \<mapsto> AwaitAttach paramsA ctx],
      cancelled := {0}, nextId := 1, effects := [Open ''http://127.0.0.1:9222'']\<rparr>"
  by (simp add: cancelling_def attaching_eq init_def)

lemma superseded_eq:
  "superseded = init\<lparr>lastLaunchParams := Some paramsB,
      tasks := [0 \<mapsto> AwaitDelay paramsA ctx, 1 \<mapsto> AwaitAttach paramsB ctx],
      nextId := 2,
      effects := [Open ''http://127.0.0.1:9222'', Delay 1000, Open ''http://127.0.0.1:9222'']\<rparr>"
  by (simp add: superseded_def attaching_eq init_def acquire_catch_eq isCancellationRequested_def
        ctx_fields launch_def paramsB_fields attemptToAttach_def acquireConnectionForBrowser_eq)

lemma relaunched_eq:
  "relaunched = retrying\<lparr>lastLaunchParams := Some paramsB,
      tasks := (tasks retrying)(3 \<mapsto> AwaitAttach paramsB ctx),
      nextId := 4,
      effects := effects retrying @ [Open ''http://127.0.0.1:9222'']\<rparr>"
  by (simp add: relaunched_def retrying_eq init_def launch_def attemptToAttach_def
        acquireConnectionForBrowser_eq paramsB_fields)

lemma paramsB_restart: "restart paramsB"
  by (simp add: paramsB_def paramsA_def)

lemma two_timers_eq:
  "two_timers = retrying\<lparr>attemptTimer := Some 5, disposables := [1, 4],
      lastLaunchParams := Some paramsB,
      tasks := (tasks retrying)(3 \<mapsto> AwaitConnect paramsB ctx 8),
      timers := [2 \<mapsto> (paramsA, ctx), 5 \<mapsto> (paramsB, ctx)],
      listeners := [(1, 7, paramsA, ctx), (4, 8, paramsB, ctx)],
      nextId := 6,
      effects := effects retrying
        @ [Open ''http://127.0.0.1:9222'', ConnectTM 8, SetTimeout 5 1000]\<rparr>"
  by (simp add: two_timers_def relaunched_eq retrying_eq init_def attemptToAttach_acquired_def
        park_def emit_def fire_disconnected_def onDisconnected_eq paramsB_restart)

lemma retrying_run:
  "retrying = run [Launch paramsA ctx, AttachResolved 0 7, ConnectResolved 0 (Some 5),
                   MainTargetFound 0, Disconnected 7] init"
  by (simp add: retrying_def attached_def racing_def connecting_def attaching_def
        del: step.simps)

lemma paramsU_fields:
  "type paramsU = Edge" "request paramsU = ''attach''" "timeout paramsU = 5000"
  "urlFilter paramsU = Some []" "url paramsU = Some ''http://localhost:8080/''"
  "browserURL paramsU = ''http://localhost:9229''"
  by (simp_all add: paramsU_def browserURL_def string_of_nat.simps)

lemma string_of_nat_5000: "string_of_nat 5000 = ''5000''"
  by (simp add: string_of_nat.simps)

lemma racingU_eq:
  "racingU = init\<lparr>connection := Some 7, targetManager := Some 5, disposables := [1],
      lastLaunchParams := Some paramsU,
      tasks := [0 \<mapsto> AwaitRace paramsU ctx 5], listeners := [(1, 7, paramsU, ctx)],
      tm_listeners := [5], nextId := 2,
      effects := [Open ''http://localhost:9229'', ConnectTM 7, WaitForMainTarget 5, Delay 5000]\<rparr>"
  by (simp add: racingU_def init_def attacher_defs paramsU_fields)

lemma delaying_eq:
  "delaying = init\<lparr>lastLaunchParams := Some paramsA, tasks := [0 \<mapsto> AwaitDelay paramsA ctx],
      nextId := 1, effects := [Open ''http://127.0.0.1:9222'', Delay 1000]\<rparr>"
  by (simp add: delaying_def attaching_eq init_def acquire_catch_eq isCancellationRequested_def
        ctx_fields)

section \<open>\<^verbatim>\<open>launch\<close>\<close>





section \<open>The acquire loop\<close>

lemma failed_attempt_and_delay:
  assumes "tasks s t = Some (AwaitAttach params context)"
    and "lastLaunchParams s = Some params"
    and "\<not> isCancellationRequested (cancellationToken context) s"
  shows "step (DelayElapsed t) (step (AttachRejected t message) s)
           = s\<lparr>effects := effects s @ [Delay 1000, Open (browserURL params)]\<rparr>"
proof -
  have "(tasks s)(t \<mapsto> AwaitAttach params context) = tasks s"
    using assms(1) by (simp add: fun_upd_idem)
  with assms show ?thesis
    by (simp add: acquire_catch_eq acquireConnectionForBrowser_eq)
qed

lemma run_failures:
  assumes "tasks s t = Some (AwaitAttach params context)"
    and "lastLaunchParams s = Some params"
    and "\<not> isCancellationRequested (cancellationToken context) s"
  shows "run (failures t messages) s
           = s\<lparr>effects := effects s
                @ concat (replicate (length messages) [Delay 1000, Open (browserURL params)])\<rparr>"
  using assms
proof (induction messages arbitrary: s)
  case Nil
  show ?case by simp
next
  case (Cons m messages)
  let ?s1 = "s\<lparr>effects := effects s @ [Delay 1000, Open (browserURL params)]\<rparr>"
  have "run (failures t (m # messages)) s = run (failures t messages) ?s1"
    using Cons.prems by (simp add: failed_attempt_and_delay del: step.simps)
  also have "\<dots> = ?s1\<lparr>effects := effects ?s1
                @ concat (replicate (length messages) [Delay 1000, Open (browserURL params)])\<rparr>"
    using Cons.prems by (intro Cons.IH) simp_all
  finally show ?case by simp
qed

text \<open>
  C2. Take an attempt that awaits its open attempt, with its configuration current and
  its token not signalled. If the next \<open>N\<close> open attempts fail, each followed by the
  end of the retry delay, and the one after that gives connection \<open>c\<close>, then the loop
  has started exactly \<open>N\<close> delays, each of 1000 ms and each followed by one more open
  attempt, and \<^verbatim>\<open>acquireConnectionForBrowser\<close> has returned \<open>c\<close>: it is stored as the
  connection and \<^verbatim>\<open>BrowserTargetManager.connect\<close> is called on it. The attempt is no
  longer in the loop: a later settlement of an open attempt or of a retry delay of
  this attempt changes nothing, so no further open attempt is made.
\<close>

theorem acquire_retries_until_success:
  assumes "tasks s t = Some (AwaitAttach params context)"
    and "lastLaunchParams s = Some params"
    and "\<not> isCancellationRequested (cancellationToken context) s"
  shows "run (failures t messages @ [AttachResolved t c]) s
           = s\<lparr>connection := Some c,
                disposables := disposables s @ [nextId s],
                tasks := (tasks s)(t \<mapsto> AwaitConnect params context c),
                listeners := listeners s @ [(nextId s, c, params, context)],
                nextId := Suc (nextId s),
                effects := effects s
                  @ concat (replicate (length messages) [Delay 1000, Open (browserURL params)])
                  @ [ConnectTM c]\<rparr>
       \<and> step (AttachResolved t c') (run (failures t messages @ [AttachResolved t c]) s)
           = run (failures t messages @ [AttachResolved t c]) s
       \<and> step (AttachRejected t message) (run (failures t messages @ [AttachResolved t c]) s)
           = run (failures t messages @ [AttachResolved t c]) s
       \<and> step (DelayElapsed t) (run (failures t messages @ [AttachResolved t c]) s)
           = run (failures t messages @ [AttachResolved t c]) s"
  using assms
  by (simp add: run_append run_failures attemptToAttach_acquired_def park_def emit_def Let_def)

theorem acquire_retries_until_success_witness:
  "tasks attaching 0 = Some (AwaitAttach paramsA ctx)
   \<and> lastLaunchParams attaching = Some paramsA
   \<and> \<not> isCancellationRequested (cancellationToken ctx) attaching
   \<and> connection (run (failures 0 [''connection refused'', ''connection refused'']
                        @ [AttachResolved 0 7]) attaching) = Some 7
   \<and> effects (run (failures 0 [''connection refused'', ''connection refused'']
                     @ [AttachResolved 0 7]) attaching)
        = [Open ''http://127.0.0.1:9222'', Delay 1000, Open ''http://127.0.0.1:9222'',
           Delay 1000, Open ''http://127.0.0.1:9222'', ConnectTM 7]"
proof -
  have h1: "tasks attaching 0 = Some (AwaitAttach paramsA ctx)"
    by (simp add: attaching_eq)
  have h2: "lastLaunchParams attaching = Some paramsA"
    by (simp add: attaching_eq)
  have h3: "\<not> isCancellationRequested (cancellationToken ctx) attaching"
    by (simp add: attaching_eq init_def isCancellationRequested_def ctx_fields)
  have e: "effects attaching = [Open ''http://127.0.0.1:9222'']"
    by (simp add: attaching_eq)
  from acquire_retries_until_success [OF h1 h2 h3,
      of "[''connection refused'', ''connection refused'']" 7]
  have "run (failures 0 [''connection refused'', ''connection refused'']
              @ [AttachResolved 0 7]) attaching
          = attaching\<lparr>connection := Some 7,
                disposables := disposables attaching @ [nextId attaching],
                tasks := (tasks attaching)(0 \<mapsto> AwaitConnect paramsA ctx 7),
                listeners := listeners attaching @ [(nextId attaching, 7, paramsA, ctx)],
                nextId := Suc (nextId attaching),
                effects := effects attaching
                  @ concat (replicate (length [''connection refused'', ''connection refused''])
                      [Delay 1000, Open (browserURL paramsA)])
                  @ [ConnectTM 7]\<rparr>"
    by blast
  then have "connection (run (failures 0 [''connection refused'', ''connection refused'']
                        @ [AttachResolved 0 7]) attaching) = Some 7"
    and "effects (run (failures 0 [''connection refused'', ''connection refused'']
                     @ [AttachResolved 0 7]) attaching)
        = [Open ''http://127.0.0.1:9222'', Delay 1000, Open ''http://127.0.0.1:9222'',
           Delay 1000, Open ''http://127.0.0.1:9222'', ConnectTM 7]"
    by (simp_all add: e browserURL_paramsA numeral_2_eq_2)
  with h1 h2 h3 show ?thesis by blast
qed

text \<open>
  C3. For an attempt \<open>t\<close> inside \<^verbatim>\<open>acquireConnectionForBrowser\<close>:
  if an open attempt fails while the token is signalled, the attempt returns
  "Cannot connect to the target at \<open>url\<close>: \<open>message\<close>" and starts neither a delay nor
  another open attempt; if the retry delay ends and the configuration is no longer the
  current one, it returns the same message with the cause "Cancelled"; if an open
  attempt fails while the token is not signalled, nothing is returned and the delay of
  1000 ms starts; if the delay ends and the configuration is still current, the next
  open attempt starts. These are the only ways for the attempt to return from inside the
  loop: whatever happens next, if the attempt has returned afterwards, it has returned
  one of the two messages, for the reason that goes with it. An attempt started by the
  retry timer whose configuration is no longer current leaves the loop at once, with
  the "Cancelled" message and without an open attempt.
\<close>

theorem acquire_error_cases:
  assumes "t < nextId s"
  shows
   "(tasks s t = Some (AwaitAttach params context)
       \<and> isCancellationRequested (cancellationToken context) s
     \<longrightarrow> step (AttachRejected t message) s
           = s\<lparr>tasks := (tasks s)(t \<mapsto> Returned (Some
               (''Cannot connect to the target at '' @ browserURL params @ '': '' @ message)))\<rparr>)
  \<and> (tasks s t = Some (AwaitDelay params context) \<and> lastLaunchParams s \<noteq> Some params
     \<longrightarrow> step (DelayElapsed t) s
           = s\<lparr>tasks := (tasks s)(t \<mapsto> Returned (Some
               (''Cannot connect to the target at '' @ browserURL params @ '': Cancelled'')))\<rparr>)
  \<and> (tasks s t = Some (AwaitAttach params context)
       \<and> \<not> isCancellationRequested (cancellationToken context) s
     \<longrightarrow> step (AttachRejected t message) s
           = s\<lparr>tasks := (tasks s)(t \<mapsto> AwaitDelay params context),
                effects := effects s @ [Delay 1000]\<rparr>)
  \<and> (tasks s t = Some (AwaitDelay params context) \<and> lastLaunchParams s = Some params
     \<longrightarrow> step (DelayElapsed t) s
           = s\<lparr>tasks := (tasks s)(t \<mapsto> AwaitAttach params context),
                effects := effects s @ [Open (browserURL params)]\<rparr>)
  \<and> ((tasks s t = Some (AwaitAttach params context) \<or> tasks s t = Some (AwaitDelay params context))
       \<and> tasks (step a s) t = Some (Returned r)
     \<longrightarrow> (\<exists>m. a = AttachRejected t m \<and> tasks s t = Some (AwaitAttach params context)
              \<and> isCancellationRequested (cancellationToken context) s
              \<and> r = Some (''Cannot connect to the target at '' @ browserURL params @ '': '' @ m))
         \<or> (a = DelayElapsed t \<and> tasks s t = Some (AwaitDelay params context)
              \<and> lastLaunchParams s \<noteq> Some params
              \<and> r = Some (''Cannot connect to the target at '' @ browserURL params
                           @ '': Cancelled'')))
  \<and> (timers s k = Some (params, context) \<and> lastLaunchParams s \<noteq> Some params
     \<longrightarrow> step (TimerFired k) s
           = s\<lparr>attemptTimer := None,
                tasks := (tasks s)(nextId s \<mapsto> Returned (Some
                  (''Cannot connect to the target at '' @ browserURL params @ '': Cancelled''))),
                timers := (timers s)(k := None),
                nextId := Suc (nextId s)\<rparr>)"
proof -
  have e: "(tasks s t = Some (AwaitAttach params context) \<or> tasks s t = Some (AwaitDelay params context))
       \<and> tasks (step a s) t = Some (Returned r)
     \<longrightarrow> (\<exists>m. a = AttachRejected t m \<and> tasks s t = Some (AwaitAttach params context)
              \<and> isCancellationRequested (cancellationToken context) s
              \<and> r = Some (''Cannot connect to the target at '' @ browserURL params @ '': '' @ m))
         \<or> (a = DelayElapsed t \<and> tasks s t = Some (AwaitDelay params context)
              \<and> lastLaunchParams s \<noteq> Some params
              \<and> r = Some (''Cannot connect to the target at '' @ browserURL params
                           @ '': Cancelled''))"
  proof (intro impI, elim conjE)
    assume k: "tasks s t = Some (AwaitAttach params context) \<or> tasks s t = Some (AwaitDelay params context)"
      and r: "tasks (step a s) t = Some (Returned r)"
    have changed: "tasks (step a s) t \<noteq> tasks s t"
      using k r by auto
    with step_keeps_other_tasks [OF assms, of a]
    consider (res) c where "a = AttachResolved t c" | (rej) m where "a = AttachRejected t m"
      | (del) "a = DelayElapsed t" | (con) tm where "a = ConnectResolved t tm"
      | (mtf) "a = MainTargetFound t" | (tmo) "a = TimeoutElapsed t"
      by blast
    then show "(\<exists>m. a = AttachRejected t m \<and> tasks s t = Some (AwaitAttach params context)
              \<and> isCancellationRequested (cancellationToken context) s
              \<and> r = Some (''Cannot connect to the target at '' @ browserURL params @ '': '' @ m))
         \<or> (a = DelayElapsed t \<and> tasks s t = Some (AwaitDelay params context)
              \<and> lastLaunchParams s \<noteq> Some params
              \<and> r = Some (''Cannot connect to the target at '' @ browserURL params
                           @ '': Cancelled''))"
    proof cases
      case res
      with k r show ?thesis
        by (auto simp add: attemptToAttach_acquired_def park_def emit_def Let_def)
    next
      case rej
      with k r show ?thesis
        by (auto simp add: acquire_catch_eq split: if_splits)
    next
      case del
      with k r show ?thesis
        by (auto simp add: acquireConnectionForBrowser_eq split: if_splits)
    next
      case con
      with k changed show ?thesis by auto
    next
      case mtf
      with k changed show ?thesis by auto
    next
      case tmo
      with k changed show ?thesis by auto
    qed
  qed
  show ?thesis
    by (intro conjI e)
      (simp_all add: acquire_catch_eq acquireConnectionForBrowser_eq
         scheduleAttach_callback_def attemptToAttach_def Let_def)
qed

theorem acquire_error_cases_witness:
  "0 < nextId cancelling
   \<and> tasks cancelling 0 = Some (AwaitAttach paramsA ctx)
   \<and> isCancellationRequested (cancellationToken ctx) cancelling
   \<and> tasks (step (AttachRejected 0 ''connection refused'') cancelling) 0
        = Some (Returned (Some
            ''Cannot connect to the target at http://127.0.0.1:9222: connection refused''))
   \<and> effects (step (AttachRejected 0 ''connection refused'') cancelling) = effects cancelling
   \<and> 0 < nextId superseded
   \<and> tasks superseded 0 = Some (AwaitDelay paramsA ctx)
   \<and> lastLaunchParams superseded \<noteq> Some paramsA
   \<and> tasks (step (DelayElapsed 0) superseded) 0
        = Some (Returned (Some ''Cannot connect to the target at http://127.0.0.1:9222: Cancelled''))
   \<and> effects (step (DelayElapsed 0) superseded) = effects superseded"
proof -
  have c1: "0 < nextId cancelling"
    and c2: "tasks cancelling 0 = Some (AwaitAttach paramsA ctx)"
    and c3: "isCancellationRequested (cancellationToken ctx) cancelling"
    by (simp_all add: cancelling_eq init_def isCancellationRequested_def ctx_fields)
  have s1: "0 < nextId superseded"
    and s2: "tasks superseded 0 = Some (AwaitDelay paramsA ctx)"
    and s3: "lastLaunchParams superseded \<noteq> Some paramsA"
    using paramsB_fields(3) by (auto simp add: superseded_eq init_def)
  from acquire_error_cases [OF c1, of paramsA ctx "''connection refused''"] c2 c3
  have "step (AttachRejected 0 ''connection refused'') cancelling
          = cancelling\<lparr>tasks := (tasks cancelling)(0 \<mapsto> Returned (Some
               (''Cannot connect to the target at '' @ browserURL paramsA @ '': ''
                  @ ''connection refused'')))\<rparr>"
    by blast
  then have c: "tasks (step (AttachRejected 0 ''connection refused'') cancelling) 0
        = Some (Returned (Some
            ''Cannot connect to the target at http://127.0.0.1:9222: connection refused''))"
    "effects (step (AttachRejected 0 ''connection refused'') cancelling) = effects cancelling"
    by (simp_all add: browserURL_paramsA)
  from acquire_error_cases [OF s1, of paramsA ctx] s2 s3
  have "step (DelayElapsed 0) superseded
          = superseded\<lparr>tasks := (tasks superseded)(0 \<mapsto> Returned (Some
               (''Cannot connect to the target at '' @ browserURL paramsA @ '': Cancelled'')))\<rparr>"
    by blast
  then have s: "tasks (step (DelayElapsed 0) superseded) 0
        = Some (Returned (Some ''Cannot connect to the target at http://127.0.0.1:9222: Cancelled''))"
    "effects (step (DelayElapsed 0) superseded) = effects superseded"
    by (simp_all add: browserURL_paramsA)
  from c1 c2 c3 c s1 s2 s3 s show ?thesis by blast
qed

section \<open>Supersession\<close>

text \<open>
  C1, as stated, fails. The configuration is compared with \<^verbatim>\<open>_lastLaunchParams\<close> at
  the head of the loop, before an open attempt starts, and nowhere after it. Here
  \<^verbatim>\<open>launch(paramsA)\<close> is followed by \<^verbatim>\<open>launch(paramsB)\<close> while the open attempt for
  \<open>paramsA\<close> is still pending, and that open attempt then succeeds with connection 7:
  the connection obtained for \<open>paramsA\<close> becomes \<^verbatim>\<open>_connection\<close> although
  \<open>paramsB\<close> is the current configuration, and the attempt for \<open>paramsA\<close> goes on to
  \<^verbatim>\<open>BrowserTargetManager.connect\<close>. When the open attempt for \<open>paramsB\<close> succeeds
  too, with connection 8, that one replaces connection 7 in \<^verbatim>\<open>_connection\<close>;
  \<^verbatim>\<open>close()\<close> has not been called on connection 7, and the attacher listens to both.
\<close>

theorem superseded_open_attempt_installs_connection:
  "paramsA \<noteq> paramsB
   \<and> lastLaunchParams (run [Launch paramsA ctx, Launch paramsB ctx] init) = Some paramsB
   \<and> tasks (run [Launch paramsA ctx, Launch paramsB ctx] init) 0
        = Some (AwaitAttach paramsA ctx)
   \<and> connection (run [Launch paramsA ctx, Launch paramsB ctx] init) = None
   \<and> lastLaunchParams (run [Launch paramsA ctx, Launch paramsB ctx, AttachResolved 0 7] init)
        = Some paramsB
   \<and> connection (run [Launch paramsA ctx, Launch paramsB ctx, AttachResolved 0 7] init)
        = Some 7
   \<and> tasks (run [Launch paramsA ctx, Launch paramsB ctx, AttachResolved 0 7] init) 0
        = Some (AwaitConnect paramsA ctx 7)
   \<and> effects (run [Launch paramsA ctx, Launch paramsB ctx, AttachResolved 0 7] init)
        = [Open ''http://127.0.0.1:9222'', Open ''http://127.0.0.1:9222'', ConnectTM 7]
   \<and> connection (run [Launch paramsA ctx, Launch paramsB ctx, AttachResolved 0 7,
                       AttachResolved 1 8] init) = Some 8
   \<and> listeners (run [Launch paramsA ctx, Launch paramsB ctx, AttachResolved 0 7,
                      AttachResolved 1 8] init) = [(2, 7, paramsA, ctx), (3, 8, paramsB, ctx)]
   \<and> effects (run [Launch paramsA ctx, Launch paramsB ctx, AttachResolved 0 7,
                    AttachResolved 1 8] init)
        = [Open ''http://127.0.0.1:9222'', Open ''http://127.0.0.1:9222'', ConnectTM 7,
           ConnectTM 8]"
  by (simp add: init_def launch_def attemptToAttach_def acquireConnectionForBrowser_eq
        attemptToAttach_acquired_def park_def emit_def paramsA_fields paramsB_fields
        browserURL_paramsA)

text \<open>
  C1, amended. Let the configuration \<open>params\<close> be superseded (it is not the current
  one) and not be launched again, and let an attach attempt for \<open>params\<close> wait in the
  retry delay of its acquire loop. Whatever happens afterwards, the configuration stays
  superseded and the attempt is still in its delay or has returned the "Cancelled"
  message; and at every such moment the end of its delay changes nothing but the
  attempt itself, which returns the "Cancelled" message, while every other settlement
  addressed to the attempt changes nothing at all. So the attempt starts no open
  attempt, and the connection, the target manager, the listeners and the calls made so
  far are never touched by it. A retry timer set for \<open>params\<close> starts, when it
  expires, an attempt that returns the "Cancelled" message at once: only
  \<^verbatim>\<open>_attemptTimer\<close>, the timer and the new attempt change. The open attempt that is
  pending when the configuration is superseded is not covered.
\<close>

theorem superseded_loop_installs_nothing:
  assumes "lastLaunchParams s \<noteq> Some params"
  shows "(tasks s t = Some (AwaitDelay params context) \<and> t < nextId s
          \<and> (\<forall>a \<in> set as. \<forall>c. a \<noteq> Launch params c)
        \<longrightarrow> lastLaunchParams (run as s) \<noteq> Some params
            \<and> (tasks (run as s) t = Some (AwaitDelay params context)
               \<or> tasks (run as s) t = Some (Returned (Some
                    (''Cannot connect to the target at '' @ browserURL params
                       @ '': Cancelled''))))
            \<and> step (DelayElapsed t) (run as s)
                = (if tasks (run as s) t = Some (AwaitDelay params context)
                   then (run as s)\<lparr>tasks := (tasks (run as s))(t \<mapsto> Returned (Some
                          (''Cannot connect to the target at '' @ browserURL params
                             @ '': Cancelled'')))\<rparr>
                   else run as s)
            \<and> step (AttachResolved t c) (run as s) = run as s
            \<and> step (AttachRejected t message) (run as s) = run as s
            \<and> step (ConnectResolved t tm) (run as s) = run as s
            \<and> step (MainTargetFound t) (run as s) = run as s
            \<and> step (TimeoutElapsed t) (run as s) = run as s)
       \<and> (timers s k = Some (params, context)
        \<longrightarrow> step (TimerFired k) s
              = s\<lparr>attemptTimer := None,
                   tasks := (tasks s)(nextId s \<mapsto> Returned (Some
                     (''Cannot connect to the target at '' @ browserURL params
                        @ '': Cancelled''))),
                   timers := (timers s)(k := None),
                   nextId := Suc (nextId s)\<rparr>)"
proof -
  have inv: "lastLaunchParams s' \<noteq> Some params \<Longrightarrow> t < nextId s'
      \<Longrightarrow> tasks s' t = Some (AwaitDelay params context)
           \<or> tasks s' t = Some (Returned (Some
                (''Cannot connect to the target at '' @ browserURL params @ '': Cancelled'')))
      \<Longrightarrow> \<forall>a \<in> set as. \<forall>c. a \<noteq> Launch params c
      \<Longrightarrow> lastLaunchParams (run as s') \<noteq> Some params
            \<and> (tasks (run as s') t = Some (AwaitDelay params context)
               \<or> tasks (run as s') t = Some (Returned (Some
                    (''Cannot connect to the target at '' @ browserURL params
                       @ '': Cancelled''))))" for s'
  proof (induction as arbitrary: s')
    case Nil
    then show ?case by simp
  next
    case (Cons a as)
    from Cons.prems(4) have a: "\<forall>c. a \<noteq> Launch params c"
      and as: "\<forall>a \<in> set as. \<forall>c. a \<noteq> Launch params c"
      by simp_all
    have 1: "lastLaunchParams (step a s') \<noteq> Some params"
      using Cons.prems(1) a by (rule step_keeps_superseded)
    have 2: "t < nextId (step a s')"
      using Cons.prems(2) step_nextId_mono [of s' a] by simp
    have 3: "tasks (step a s') t = Some (AwaitDelay params context)
         \<or> tasks (step a s') t = Some (Returned (Some
              (''Cannot connect to the target at '' @ browserURL params @ '': Cancelled'')))"
      using Cons.prems(1-3) by (rule step_superseded_delay)
    from Cons.IH [OF 1 2 3 as] show ?case
      by (simp del: step.simps)
  qed
  have events: "lastLaunchParams s' \<noteq> Some params
      \<Longrightarrow> tasks s' t = Some (AwaitDelay params context)
           \<or> tasks s' t = Some (Returned (Some
                (''Cannot connect to the target at '' @ browserURL params @ '': Cancelled'')))
      \<Longrightarrow> step (DelayElapsed t) s'
                = (if tasks s' t = Some (AwaitDelay params context)
                   then s'\<lparr>tasks := (tasks s')(t \<mapsto> Returned (Some
                          (''Cannot connect to the target at '' @ browserURL params
                             @ '': Cancelled'')))\<rparr>
                   else s')
            \<and> step (AttachResolved t c) s' = s'
            \<and> step (AttachRejected t message) s' = s'
            \<and> step (ConnectResolved t tm) s' = s'
            \<and> step (MainTargetFound t) s' = s'
            \<and> step (TimeoutElapsed t) s' = s'" for s'
    by (auto simp add: acquireConnectionForBrowser_eq)
  have timer: "timers s k = Some (params, context)
        \<longrightarrow> step (TimerFired k) s
              = s\<lparr>attemptTimer := None,
                   tasks := (tasks s)(nextId s \<mapsto> Returned (Some
                     (''Cannot connect to the target at '' @ browserURL params
                        @ '': Cancelled''))),
                   timers := (timers s)(k := None),
                   nextId := Suc (nextId s)\<rparr>"
    using assms
    by (simp add: scheduleAttach_callback_def attemptToAttach_def
          acquireConnectionForBrowser_eq Let_def)
  have loop: "tasks s t = Some (AwaitDelay params context) \<and> t < nextId s
          \<and> (\<forall>a \<in> set as. \<forall>c. a \<noteq> Launch params c)
        \<longrightarrow> lastLaunchParams (run as s) \<noteq> Some params
            \<and> (tasks (run as s) t = Some (AwaitDelay params context)
               \<or> tasks (run as s) t = Some (Returned (Some
                    (''Cannot connect to the target at '' @ browserURL params
                       @ '': Cancelled''))))
            \<and> step (DelayElapsed t) (run as s)
                = (if tasks (run as s) t = Some (AwaitDelay params context)
                   then (run as s)\<lparr>tasks := (tasks (run as s))(t \<mapsto> Returned (Some
                          (''Cannot connect to the target at '' @ browserURL params
                             @ '': Cancelled'')))\<rparr>
                   else run as s)
            \<and> step (AttachResolved t c) (run as s) = run as s
            \<and> step (AttachRejected t message) (run as s) = run as s
            \<and> step (ConnectResolved t tm) (run as s) = run as s
            \<and> step (MainTargetFound t) (run as s) = run as s
            \<and> step (TimeoutElapsed t) (run as s) = run as s"
  proof (intro impI, elim conjE)
    assume h: "tasks s t = Some (AwaitDelay params context)" "t < nextId s"
      "\<forall>a \<in> set as. \<forall>c. a \<noteq> Launch params c"
    from inv [OF assms h(2) disjI1 [OF h(1)] h(3)]
    have i: "lastLaunchParams (run as s) \<noteq> Some params"
      "tasks (run as s) t = Some (AwaitDelay params context)
         \<or> tasks (run as s) t = Some (Returned (Some
              (''Cannot connect to the target at '' @ browserURL params @ '': Cancelled'')))"
      by blast+
    from i events [OF i] show "lastLaunchParams (run as s) \<noteq> Some params
            \<and> (tasks (run as s) t = Some (AwaitDelay params context)
               \<or> tasks (run as s) t = Some (Returned (Some
                    (''Cannot connect to the target at '' @ browserURL params
                       @ '': Cancelled''))))
            \<and> step (DelayElapsed t) (run as s)
                = (if tasks (run as s) t = Some (AwaitDelay params context)
                   then (run as s)\<lparr>tasks := (tasks (run as s))(t \<mapsto> Returned (Some
                          (''Cannot connect to the target at '' @ browserURL params
                             @ '': Cancelled'')))\<rparr>
                   else run as s)
            \<and> step (AttachResolved t c) (run as s) = run as s
            \<and> step (AttachRejected t message) (run as s) = run as s
            \<and> step (ConnectResolved t tm) (run as s) = run as s
            \<and> step (MainTargetFound t) (run as s) = run as s
            \<and> step (TimeoutElapsed t) (run as s) = run as s"
      by blast
  qed
  from loop timer show ?thesis by blast
qed

theorem superseded_loop_installs_nothing_witness:
  "lastLaunchParams superseded \<noteq> Some paramsA
   \<and> tasks superseded 0 = Some (AwaitDelay paramsA ctx)
   \<and> 0 < nextId superseded
   \<and> lastLaunchParams (run [DelayElapsed 0, AttachResolved 1 8] superseded) \<noteq> Some paramsA
   \<and> tasks (run [DelayElapsed 0, AttachResolved 1 8] superseded) 0
        = Some (Returned (Some ''Cannot connect to the target at http://127.0.0.1:9222: Cancelled''))
   \<and> connection (run [DelayElapsed 0, AttachResolved 1 8] superseded) = Some 8
   \<and> connection (step (DelayElapsed 0) superseded) = None
   \<and> listeners (step (DelayElapsed 0) superseded) = []
   \<and> effects (step (DelayElapsed 0) superseded)
        = [Open ''http://127.0.0.1:9222'', Delay 1000, Open ''http://127.0.0.1:9222'']
   \<and> step (AttachResolved 0 9) superseded = superseded
   \<and> lastLaunchParams relaunched \<noteq> Some paramsA
   \<and> timers relaunched 2 = Some (paramsA, ctx)
   \<and> tasks (step (TimerFired 2) relaunched) 4
        = Some (Returned (Some ''Cannot connect to the target at http://127.0.0.1:9222: Cancelled''))
   \<and> connection (step (TimerFired 2) relaunched) = None"
proof -
  have h: "lastLaunchParams superseded \<noteq> Some paramsA"
    "tasks superseded 0 = Some (AwaitDelay paramsA ctx)" "0 < nextId superseded"
    using paramsB_fields(3) by (auto simp add: superseded_eq init_def)
  have n: "\<forall>a \<in> set [DelayElapsed 0, AttachResolved 1 8]. \<forall>c. a \<noteq> Launch paramsA c"
    by simp
  note a = superseded_loop_installs_nothing [OF h(1), of 0 ctx
      "[DelayElapsed 0, AttachResolved 1 8]", THEN conjunct1]
  from a h n have 1: "lastLaunchParams (run [DelayElapsed 0, AttachResolved 1 8] superseded)
      \<noteq> Some paramsA"
    by blast
  have 2: "tasks (run [DelayElapsed 0, AttachResolved 1 8] superseded) 0
        = Some (Returned (Some ''Cannot connect to the target at http://127.0.0.1:9222: Cancelled''))"
    "connection (run [DelayElapsed 0, AttachResolved 1 8] superseded) = Some 8"
    using paramsB_fields(3)
    by (auto simp add: superseded_eq init_def acquireConnectionForBrowser_eq
          attemptToAttach_acquired_def park_def emit_def browserURL_paramsA)
  have 3: "lastLaunchParams relaunched \<noteq> Some paramsA"
    "timers relaunched 2 = Some (paramsA, ctx)"
    using paramsB_fields(3) by (auto simp add: relaunched_eq retrying_eq init_def)
  have n0: "\<forall>a \<in> set []. \<forall>c. a \<noteq> Launch paramsA c"
    by simp
  note a0 = superseded_loop_installs_nothing [OF h(1), of 0 ctx "[]" 9, THEN conjunct1]
  from a0 h n0 have "step (DelayElapsed 0) (run [] superseded)
                = (if tasks (run [] superseded) 0 = Some (AwaitDelay paramsA ctx)
                   then (run [] superseded)\<lparr>tasks := (tasks (run [] superseded))(0 \<mapsto> Returned (Some
                          (''Cannot connect to the target at '' @ browserURL paramsA
                             @ '': Cancelled'')))\<rparr>
                   else run [] superseded)"
    and "step (AttachResolved 0 9) (run [] superseded) = run [] superseded"
    by blast+
  then have 5: "connection (step (DelayElapsed 0) superseded) = None"
    "listeners (step (DelayElapsed 0) superseded) = []"
    "effects (step (DelayElapsed 0) superseded)
        = [Open ''http://127.0.0.1:9222'', Delay 1000, Open ''http://127.0.0.1:9222'']"
    "step (AttachResolved 0 9) superseded = superseded"
    by (simp_all add: h superseded_eq init_def del: step.simps)
  note b = superseded_loop_installs_nothing [OF 3(1), of _ ctx _ 2, THEN conjunct2]
  from b 3(2) have "step (TimerFired 2) relaunched
      = relaunched\<lparr>attemptTimer := None,
           tasks := (tasks relaunched)
             (nextId relaunched \<mapsto> Returned (Some
               (''Cannot connect to the target at '' @ browserURL paramsA @ '': Cancelled''))),
           timers := (timers relaunched)(2 := None),
           nextId := Suc (nextId relaunched)\<rparr>"
    by blast
  then have 4: "tasks (step (TimerFired 2) relaunched) 4
        = Some (Returned (Some ''Cannot connect to the target at http://127.0.0.1:9222: Cancelled''))"
    "connection (step (TimerFired 2) relaunched) = None"
    by (simp_all add: relaunched_eq retrying_eq init_def browserURL_paramsA)
  from h 1 2 3 4 5 show ?thesis by blast
qed

section \<open>No target manager\<close>

text \<open>
  C10. If \<^verbatim>\<open>BrowserTargetManager.connect\<close> gives \<^verbatim>\<open>undefined\<close>, the attach attempt
  returns \<^verbatim>\<open>undefined\<close>, so \<^verbatim>\<open>launch\<close> resolves to \<^verbatim>\<open>{blockSessionTermination: true}\<close>.
  No target manager is stored, no listener is added to one, neither
  \<^verbatim>\<open>waitForMainTarget\<close> nor the timeout delay is started, and a later end of a race
  changes nothing.
\<close>

theorem connect_undefined_is_success:
  assumes "tasks s t = Some (AwaitConnect params context c)"
  shows "step (ConnectResolved t None) s
           = s\<lparr>targetManager := None, tasks := (tasks s)(t \<mapsto> Returned None)\<rparr>
       \<and> launch_returned (Awaiting t) (step (ConnectResolved t None) s)
           = Some \<lparr>error = None, blockSessionTermination = Some True\<rparr>
       \<and> step (MainTargetFound t) (step (ConnectResolved t None) s)
           = step (ConnectResolved t None) s
       \<and> step (TimeoutElapsed t) (step (ConnectResolved t None) s)
           = step (ConnectResolved t None) s"
  using assms by (simp add: attacher_defs launch_returned_def launch_finish_def)

theorem connect_undefined_is_success_witness:
  "tasks connecting 0 = Some (AwaitConnect paramsA ctx 7)
   \<and> targetManager (step (ConnectResolved 0 None) connecting) = None
   \<and> tm_listeners (step (ConnectResolved 0 None) connecting) = []
   \<and> effects (step (ConnectResolved 0 None) connecting)
        = [Open ''http://127.0.0.1:9222'', ConnectTM 7]
   \<and> launch_returned (Awaiting 0) (step (ConnectResolved 0 None) connecting)
        = Some \<lparr>error = None, blockSessionTermination = Some True\<rparr>"
proof -
  have h: "tasks connecting 0 = Some (AwaitConnect paramsA ctx 7)"
    by (simp add: connecting_eq)
  from connect_undefined_is_success [OF h] show ?thesis
    using h by (simp add: connecting_eq init_def attacher_defs)
qed

section \<open>The race for the main target\<close>

text \<open>
  C7. When \<^verbatim>\<open>BrowserTargetManager.connect\<close> has given a target manager, the attempt
  stores it, listens to it, calls \<^verbatim>\<open>waitForMainTarget\<close> on it, starts a delay of
  \<^verbatim>\<open>params.timeout\<close> milliseconds and waits for the first of the two. An attach
  attempt suspended at \<^verbatim>\<open>Promise.race\<close> is resumed by whichever of the two promises
  settles first, and the later one changes nothing. If the main target is found first,
  the attempt returns no error and \<^verbatim>\<open>launch\<close> resolves to
  \<^verbatim>\<open>{blockSessionTermination: true}\<close>. If the delay ends first, the attempt returns
  "Can't find a valid target that matches \<open>filter\<close> within \<open>timeout\<close>ms", where
  \<open>filter\<close> is \<^verbatim>\<open>urlFilter\<close> when that is set and not empty, else \<^verbatim>\<open>url\<close> when that
  is set, else "undefined"; the connection stays as it is and no call is made on it.
\<close>

theorem main_target_race:
  assumes "tasks s t = Some (AwaitRace params context m)"
  shows "step (MainTargetFound t) s = s\<lparr>tasks := (tasks s)(t \<mapsto> Returned None)\<rparr>
       \<and> step (TimeoutElapsed t) s
           = s\<lparr>tasks := (tasks s)(t \<mapsto> Returned (Some
                 (''Can't find a valid target that matches ''
                  @ (case urlFilter params of
                       None \<Rightarrow> (case url params of None \<Rightarrow> ''undefined'' | Some u \<Rightarrow> u)
                     | Some f \<Rightarrow>
                         if f = []
                         then (case url params of None \<Rightarrow> ''undefined'' | Some u \<Rightarrow> u)
                         else f)
                  @ '' within '' @ string_of_nat (timeout params) @ ''ms'')))\<rparr>
       \<and> step (TimeoutElapsed t) (step (MainTargetFound t) s) = step (MainTargetFound t) s
       \<and> step (MainTargetFound t) (step (TimeoutElapsed t) s) = step (TimeoutElapsed t) s
       \<and> launch_returned (Awaiting t) (step (MainTargetFound t) s)
           = Some \<lparr>error = None, blockSessionTermination = Some True\<rparr>
       \<and> connection (step (TimeoutElapsed t) s) = connection s
       \<and> effects (step (TimeoutElapsed t) s) = effects s
       \<and> (tasks s' t' = Some (AwaitConnect params' context' c)
          \<longrightarrow> step (ConnectResolved t' (Some m')) s'
                = s'\<lparr>targetManager := Some m',
                     tasks := (tasks s')(t' \<mapsto> AwaitRace params' context' m'),
                     tm_listeners := tm_listeners s' @ [m'],
                     effects := effects s' @ [WaitForMainTarget m', Delay (timeout params')]\<rparr>)"
proof -
  have race: "step (MainTargetFound t) s = s\<lparr>tasks := (tasks s)(t \<mapsto> Returned None)\<rparr>
       \<and> step (TimeoutElapsed t) (step (MainTargetFound t) s) = step (MainTargetFound t) s
       \<and> step (MainTargetFound t) (step (TimeoutElapsed t) s) = step (TimeoutElapsed t) s
       \<and> launch_returned (Awaiting t) (step (MainTargetFound t) s)
           = Some \<lparr>error = None, blockSessionTermination = Some True\<rparr>
       \<and> connection (step (TimeoutElapsed t) s) = connection s
       \<and> effects (step (TimeoutElapsed t) s) = effects s"
    using assms
    by (simp add: attemptToAttach_raced_def park_def launch_returned_def launch_finish_def)
  have timed_out: "step (TimeoutElapsed t) s
           = s\<lparr>tasks := (tasks s)(t \<mapsto> Returned (Some
                 (''Can't find a valid target that matches ''
                  @ (case urlFilter params of
                       None \<Rightarrow> (case url params of None \<Rightarrow> ''undefined'' | Some u \<Rightarrow> u)
                     | Some f \<Rightarrow>
                         if f = []
                         then (case url params of None \<Rightarrow> ''undefined'' | Some u \<Rightarrow> u)
                         else f)
                  @ '' within '' @ string_of_nat (timeout params) @ ''ms'')))\<rparr>"
    using assms
    by (simp add: attemptToAttach_raced_def park_def noMatchingTarget_message
          or_else_def arg_of_def string_of_arg_def split: option.splits)
  have started: "tasks s' t' = Some (AwaitConnect params' context' c)
          \<longrightarrow> step (ConnectResolved t' (Some m')) s'
                = s'\<lparr>targetManager := Some m',
                     tasks := (tasks s')(t' \<mapsto> AwaitRace params' context' m'),
                     tm_listeners := tm_listeners s' @ [m'],
                     effects := effects s' @ [WaitForMainTarget m', Delay (timeout params')]\<rparr>"
    by (simp add: attemptToAttach_connected_def park_def emit_def)
  from race timed_out started show ?thesis by blast
qed

theorem main_target_race_witness:
  "tasks racing 0 = Some (AwaitRace paramsA ctx 5)
   \<and> launch_returned (Awaiting 0) (step (TimeoutElapsed 0) racing)
        = Some \<lparr>error = Some ''Can't find a valid target that matches * within 3000ms'',
                  blockSessionTermination = None\<rparr>
   \<and> connection (step (TimeoutElapsed 0) racing) = Some 7
   \<and> launch_returned (Awaiting 0) (step (MainTargetFound 0) racing)
        = Some \<lparr>error = None, blockSessionTermination = Some True\<rparr>
   \<and> tasks racingU 0 = Some (AwaitRace paramsU ctx 5)
   \<and> launch_returned (Awaiting 0) (step (TimeoutElapsed 0) racingU)
        = Some \<lparr>error = Some
            ''Can't find a valid target that matches http://localhost:8080/ within 5000ms'',
            blockSessionTermination = None\<rparr>
   \<and> tasks connecting 0 = Some (AwaitConnect paramsA ctx 7)
   \<and> effects (step (ConnectResolved 0 (Some 5)) connecting)
        = effects connecting @ [WaitForMainTarget 5, Delay 3000]
   \<and> tasks (step (ConnectResolved 0 (Some 5)) connecting) 0 = Some (AwaitRace paramsA ctx 5)"
proof -
  have h: "tasks racing 0 = Some (AwaitRace paramsA ctx 5)"
    by (simp add: racing_eq)
  have u: "tasks racingU 0 = Some (AwaitRace paramsU ctx 5)"
    by (simp add: racingU_eq)
  have k: "tasks connecting 0 = Some (AwaitConnect paramsA ctx 7)"
    by (simp add: connecting_eq)
  note a1 = main_target_race [OF h, THEN conjunct1]
  note a2 = main_target_race [OF h, THEN conjunct2, THEN conjunct1]
  note u2 = main_target_race [OF u, THEN conjunct2, THEN conjunct1]
  have 1: "launch_returned (Awaiting 0) (step (TimeoutElapsed 0) racing)
        = Some \<lparr>error = Some ''Can't find a valid target that matches * within 3000ms'',
                  blockSessionTermination = None\<rparr>"
    "connection (step (TimeoutElapsed 0) racing) = Some 7"
    by (subst a2, simp add: launch_returned_def launch_finish_def paramsA_fields
          string_of_nat_3000 racing_eq init_def)+
  have 2: "launch_returned (Awaiting 0) (step (MainTargetFound 0) racing)
        = Some \<lparr>error = None, blockSessionTermination = Some True\<rparr>"
    by (simp add: a1 launch_returned_def launch_finish_def del: step.simps)
  have 3: "launch_returned (Awaiting 0) (step (TimeoutElapsed 0) racingU)
        = Some \<lparr>error = Some
            ''Can't find a valid target that matches http://localhost:8080/ within 5000ms'',
            blockSessionTermination = None\<rparr>"
    by (simp add: u2 launch_returned_def launch_finish_def paramsU_fields
          string_of_nat_5000 del: step.simps)
  from main_target_race [OF h, of connecting 0 paramsA ctx 7 5] k
  have "step (ConnectResolved 0 (Some 5)) connecting
          = connecting\<lparr>targetManager := Some 5,
               tasks := (tasks connecting)(0 \<mapsto> AwaitRace paramsA ctx 5),
               tm_listeners := tm_listeners connecting @ [5],
               effects := effects connecting @ [WaitForMainTarget 5, Delay (timeout paramsA)]\<rparr>"
    by blast
  then have 4: "effects (step (ConnectResolved 0 (Some 5)) connecting)
        = effects connecting @ [WaitForMainTarget 5, Delay 3000]"
    "tasks (step (ConnectResolved 0 (Some 5)) connecting) 0 = Some (AwaitRace paramsA ctx 5)"
    by (simp_all add: paramsA_fields)
  from h 1 2 u 3 k 4 show ?thesis by blast
qed

section \<open>Disconnect handling\<close>

text \<open>
  C5. When a connection on which the attacher has its listener fires
  \<^verbatim>\<open>onDisconnected\<close>, the listener clears \<^verbatim>\<open>_connection\<close>; if there is a target
  manager it is disposed, its reference is cleared and target-list-changed is fired
  once. Then, if the configuration of the listener is still the current one and its
  \<^verbatim>\<open>restart\<close> is set, exactly one timeout of 1000 ms is set and kept in
  \<^verbatim>\<open>_attemptTimer\<close>, and nothing is fired; otherwise terminated is fired with
  \<^verbatim>\<open>{killed: true, code: 0}\<close> and no timeout is set. When the timeout expires,
  \<^verbatim>\<open>_attemptTimer\<close> is cleared and a new attach attempt starts with the same
  configuration and the token \<^verbatim>\<open>NeverCancelled\<close>, which is never signalled.
\<close>

theorem disconnect_handling:
  assumes "filter (\<lambda>l. fst (snd l) = c) (listeners s) = [(sub, c, params, context)]"
  shows "step (Disconnected c) s =
     (if lastLaunchParams s = Some params \<and> restart params
      then s\<lparr>attemptTimer := Some (nextId s), connection := None, targetManager := None,
             timers := (timers s)(nextId s \<mapsto> (params, context)),
             nextId := Suc (nextId s),
             effects := effects s
               @ (case targetManager s of None \<Rightarrow> []
                  | Some m \<Rightarrow> [DisposeTM m, Fire TargetListChanged])
               @ [SetTimeout (nextId s) 1000]\<rparr>
      else s\<lparr>connection := None, targetManager := None,
             effects := effects s
               @ (case targetManager s of None \<Rightarrow> []
                  | Some m \<Rightarrow> [DisposeTM m, Fire TargetListChanged])
               @ [Fire (Terminated \<lparr>killed = True, code = 0\<rparr>)]\<rparr>)
   \<and> (if lastLaunchParams s = Some params \<and> restart params
      then step (TimerFired (nextId s)) (step (Disconnected c) s)
           = (step (Disconnected c) s)
               \<lparr>attemptTimer := None,
                tasks := (tasks s)(Suc (nextId s) \<mapsto>
                   AwaitAttach params (context\<lparr>cancellationToken := NeverCancelled\<rparr>)),
                timers := (timers s)(nextId s := None),
                nextId := Suc (Suc (nextId s)),
                effects := effects (step (Disconnected c) s) @ [Open (browserURL params)]\<rparr>
      else timers (step (Disconnected c) s) = timers s)
   \<and> \<not> isCancellationRequested
         (cancellationToken (context\<lparr>cancellationToken := NeverCancelled\<rparr>)) s'"
  using assms
  by (simp add: fire_disconnected_single [OF assms] onDisconnected_eq
        scheduleAttach_callback_def attemptToAttach_def acquireConnectionForBrowser_def
        park_def emit_def isCancellationRequested_def)

theorem disconnect_handling_witness:
  "filter (\<lambda>l. fst (snd l) = 7) (listeners attached) = [(1, 7, paramsA, ctx)]
   \<and> effects (step (Disconnected 7) attached)
        = effects attached @ [DisposeTM 5, Fire TargetListChanged, SetTimeout 2 1000]
   \<and> targetManager (step (Disconnected 7) attached) = None
   \<and> tasks (step (TimerFired 2) (step (Disconnected 7) attached)) 3
        = Some (AwaitAttach paramsA (ctx\<lparr>cancellationToken := NeverCancelled\<rparr>))
   \<and> filter (\<lambda>l. fst (snd l) = 7) (listeners (terminate attached)) = [(1, 7, paramsA, ctx)]
   \<and> effects (step (Disconnected 7) (terminate attached))
        = effects attached @ [CloseConnection 7, DisposeTM 5, Fire TargetListChanged,
                              Fire (Terminated \<lparr>killed = True, code = 0\<rparr>)]"
proof -
  have h: "filter (\<lambda>l. fst (snd l) = 7) (listeners attached) = [(1, 7, paramsA, ctx)]"
    by (simp add: attached_eq init_def)
  have t: "terminate attached
             = attached\<lparr>lastLaunchParams := None,
                  effects := effects attached @ [CloseConnection 7]\<rparr>"
    by (simp add: terminate_def emit_def attached_eq init_def)
  have h': "filter (\<lambda>l. fst (snd l) = 7) (listeners (terminate attached))
              = [(1, 7, paramsA, ctx)]"
    by (simp add: t h)
  have c: "lastLaunchParams attached = Some paramsA \<and> restart paramsA"
    by (simp add: attached_eq paramsA_fields)
  have f: "targetManager attached = Some 5" "nextId attached = 2"
    by (simp_all add: attached_eq init_def)
  note d1 = disconnect_handling [OF h, of attached, THEN conjunct1]
  note d2 = disconnect_handling [OF h, of attached, THEN conjunct2, THEN conjunct1]
  have 1: "effects (step (Disconnected 7) attached)
        = effects attached @ [DisposeTM 5, Fire TargetListChanged, SetTimeout 2 1000]"
    "targetManager (step (Disconnected 7) attached) = None"
    by (simp_all add: d1 c f del: step.simps)
  have e: "step (TimerFired (nextId attached)) (step (Disconnected 7) attached)
           = (step (Disconnected 7) attached)
               \<lparr>attemptTimer := None,
                tasks := (tasks attached)(Suc (nextId attached) \<mapsto>
                   AwaitAttach paramsA (ctx\<lparr>cancellationToken := NeverCancelled\<rparr>)),
                timers := (timers attached)(nextId attached := None),
                nextId := Suc (Suc (nextId attached)),
                effects := effects (step (Disconnected 7) attached) @ [Open (browserURL paramsA)]\<rparr>"
    using d2 c by (simp only: simp_thms if_True)
  have "tasks (step (TimerFired (nextId attached)) (step (Disconnected 7) attached))
          (Suc (nextId attached))
        = Some (AwaitAttach paramsA (ctx\<lparr>cancellationToken := NeverCancelled\<rparr>))"
    by (subst e) simp
  then have 2: "tasks (step (TimerFired 2) (step (Disconnected 7) attached)) 3
        = Some (AwaitAttach paramsA (ctx\<lparr>cancellationToken := NeverCancelled\<rparr>))"
    by (simp add: f del: step.simps)
  have 3: "effects (step (Disconnected 7) (terminate attached))
        = effects attached @ [CloseConnection 7, DisposeTM 5, Fire TargetListChanged,
                              Fire (Terminated \<lparr>killed = True, code = 0\<rparr>)]"
    by (subst disconnect_handling [OF h', of attached, THEN conjunct1]) (simp add: t f)
  from h 1 2 h' 3 show ?thesis by blast
qed

section \<open>Target removal\<close>

text \<open>
  C6. When the target manager \<open>m\<close> the attacher listens to (one subscription, made
  after \<^verbatim>\<open>connect\<close>) reports a removed target, the attacher fires
  target-list-changed; it then fires terminated with \<^verbatim>\<open>{killed: true, code: 0}\<close> if and
  only if \<^verbatim>\<open>targetManager.targetList()\<close> is empty and the removed target can be
  attached to. Target-list-changed comes first, terminated is fired once, and nothing
  else changes.
\<close>

theorem target_removed_notifications:
  assumes "filter (\<lambda>m'. m' = m) (tm_listeners s) = [m]"
  shows "step (TargetRemoved m tgt remaining) s
           = s\<lparr>effects := effects s @ Fire TargetListChanged
                  # (if remaining = [] \<and> canAttach tgt
                     then [Fire (Terminated \<lparr>killed = True, code = 0\<rparr>)] else [])\<rparr>"
  using assms by (simp add: fire_tm_def onTargetRemoved_def fire_def emit_def Let_def)

theorem target_removed_notifications_witness:
  "filter (\<lambda>m'. m' = 5) (tm_listeners attached) = [5]
   \<and> effects (step (TargetRemoved 5 \<lparr>targetId = 1, canAttach = True\<rparr> []) attached)
        = effects attached @ [Fire TargetListChanged, Fire (Terminated \<lparr>killed = True, code = 0\<rparr>)]
   \<and> effects (step (TargetRemoved 5 \<lparr>targetId = 1, canAttach = False\<rparr> []) attached)
        = effects attached @ [Fire TargetListChanged]
   \<and> effects (step (TargetRemoved 5 \<lparr>targetId = 1, canAttach = True\<rparr>
                        [\<lparr>targetId = 2, canAttach = True\<rparr>]) attached)
        = effects attached @ [Fire TargetListChanged]"
proof -
  have h: "filter (\<lambda>m'. m' = 5) (tm_listeners attached) = [5]"
    by (simp add: attached_eq init_def)
  show ?thesis
    using h target_removed_notifications [OF h, of "\<lparr>targetId = 1, canAttach = True\<rparr>" "[]"]
      target_removed_notifications [OF h, of "\<lparr>targetId = 1, canAttach = False\<rparr>" "[]"]
      target_removed_notifications [OF h, of "\<lparr>targetId = 1, canAttach = True\<rparr>"
        "[\<lparr>targetId = 2, canAttach = True\<rparr>]"]
    by simp
qed

section \<open>Terminate and disconnect\<close>

text \<open>
  C8. \<^verbatim>\<open>terminate()\<close> clears \<^verbatim>\<open>_lastLaunchParams\<close> and calls \<^verbatim>\<open>close()\<close> on the
  connection if there is one, and changes nothing else. A second \<^verbatim>\<open>terminate()\<close> right
  after the first leaves the fields of the attacher, the suspended attempts, the timers
  and the listeners as the first call left them. \<^verbatim>\<open>disconnect()\<close> is
  \<^verbatim>\<open>terminate()\<close>.
\<close>

theorem terminate_idempotent:
  "terminate s
     = s\<lparr>lastLaunchParams := None,
          effects := effects s @ (case connection s of None \<Rightarrow> [] | Some c \<Rightarrow> [CloseConnection c])\<rparr>
   \<and> attacher.truncate (terminate (terminate s)) = attacher.truncate (terminate s)
   \<and> tasks (terminate (terminate s)) = tasks (terminate s)
   \<and> timers (terminate (terminate s)) = timers (terminate s)
   \<and> listeners (terminate (terminate s)) = listeners (terminate s)
   \<and> tm_listeners (terminate (terminate s)) = tm_listeners (terminate s)
   \<and> disconnect s = terminate s
   \<and> step Disconnect s = step Terminate s"
  by (simp add: terminate_def disconnect_def emit_def attacher.truncate_def split: option.splits)

theorem terminate_idempotent_witness:
  "lastLaunchParams (terminate attached) = None
   \<and> connection (terminate attached) = Some 7
   \<and> effects (terminate attached) = effects attached @ [CloseConnection 7]
   \<and> attacher.truncate (terminate (terminate attached)) = attacher.truncate (terminate attached)
   \<and> disconnect attached = terminate attached"
proof -
  note t = terminate_idempotent [of attached]
  have c: "connection attached = Some 7"
    by (simp add: attached_eq init_def)
  have e: "terminate attached
          = attached\<lparr>lastLaunchParams := None,
               effects := effects attached @ [CloseConnection 7]\<rparr>"
    using t by (simp add: c)
  have i: "attacher.truncate (terminate (terminate attached))
            = attacher.truncate (terminate attached)"
    using t by blast
  have d: "disconnect attached = terminate attached"
    using t by blast
  have "lastLaunchParams (terminate attached) = None"
    "connection (terminate attached) = Some 7"
    "effects (terminate attached) = effects attached @ [CloseConnection 7]"
    by (simp_all add: e c)
  with i d show ?thesis by blast
qed

section \<open>\<^verbatim>\<open>dispose\<close>\<close>

text \<open>
  C9, as stated, fails, in four ways.
  \<^item> A second \<^verbatim>\<open>dispose()\<close> calls \<^verbatim>\<open>dispose()\<close> on the same target manager again:
    in the attached session the first call releases subscription 1 and disposes target
    manager 5, and the second call disposes target manager 5 once more.
  \<^item> An attach attempt that is on its way is not touched: when it waits in its retry
    delay, that delay is still pending after \<^verbatim>\<open>dispose()\<close>, and at its end the next
    open attempt starts.
  \<^item> The listeners on the emitters of the target manager are not among
    \<^verbatim>\<open>_disposables\<close>: the attacher still listens to target manager 5 after
    \<^verbatim>\<open>dispose()\<close>, and fires target-list-changed when that one reports a target.
  \<^item> Only the timeout kept in \<^verbatim>\<open>_attemptTimer\<close> is cleared: with two retry timers
    pending, 2 and 5, \<^verbatim>\<open>_attemptTimer\<close> holds 5, timer 2 is still pending after
    \<^verbatim>\<open>dispose()\<close>, and its expiry runs an attach attempt (which finds its configuration
    superseded and returns).
\<close>

theorem dispose_twice_counterexample:
  "effects (dispose attached) = effects attached @ [DisposeSubscription 1, DisposeTM 5]
   \<and> effects (dispose (dispose attached))
        = effects attached @ [DisposeSubscription 1, DisposeTM 5, DisposeTM 5]
   \<and> tasks (dispose (dispose delaying)) 0 = Some (AwaitDelay paramsA ctx)
   \<and> effects (step (DelayElapsed 0) (dispose (dispose delaying)))
        = effects (dispose (dispose delaying)) @ [Open ''http://127.0.0.1:9222'']
   \<and> tm_listeners (dispose attached) = [5]
   \<and> effects (step (TargetAdded 5) (dispose attached))
        = effects (dispose attached) @ [Fire TargetListChanged]
   \<and> attemptTimer two_timers = Some 5
   \<and> timers (dispose two_timers) 2 = Some (paramsA, ctx)
   \<and> tasks (step (TimerFired 2) (dispose two_timers)) 6
        = Some (Returned (Some ''Cannot connect to the target at http://127.0.0.1:9222: Cancelled''))"
  using paramsB_fields(3)
  by (auto simp add: dispose_eq attached_eq delaying_eq two_timers_eq retrying_eq init_def
        acquireConnectionForBrowser_eq browserURL_paramsA fire_tm_def onTargetListEvent_def
        fire_def emit_def scheduleAttach_callback_def attemptToAttach_def Let_def)

text \<open>
  C9, amended. \<^verbatim>\<open>dispose()\<close> releases every subscription of \<^verbatim>\<open>_disposables\<close>, each
  once, and empties the list; it clears the timeout kept in \<^verbatim>\<open>_attemptTimer\<close>, so that
  the expiry of that timeout starts no attach attempt; it calls \<^verbatim>\<open>dispose()\<close> on the
  current target manager; and it changes nothing else: the listeners on the target
  manager, any other timeout and the suspended attach attempts stay as they are. In
  every state the attacher can reach, no listener on a connection is left. If the only
  pending timeout is the one in \<^verbatim>\<open>_attemptTimer\<close>, none is left. A second
  \<^verbatim>\<open>dispose()\<close> right after the first releases no subscription again and leaves every
  field of the attacher, every listener, timer and attempt as the first call left them.
\<close>

theorem dispose_releases:
  "dispose s
     = s\<lparr>disposables := [],
          timers := (case attemptTimer s of None \<Rightarrow> timers s | Some k \<Rightarrow> (timers s)(k := None)),
          listeners := filter (\<lambda>l. fst l \<notin> set (disposables s)) (listeners s),
          effects := effects s @ map DisposeSubscription (disposables s)
            @ (case attemptTimer s of None \<Rightarrow> [] | Some k \<Rightarrow> [ClearTimeout k])
            @ (case targetManager s of None \<Rightarrow> [] | Some m \<Rightarrow> [DisposeTM m])\<rparr>
   \<and> (case attemptTimer s of None \<Rightarrow> True
       | Some k \<Rightarrow> step (TimerFired k) (dispose s) = dispose s)
   \<and> listeners (dispose (run as init)) = []
   \<and> (dom (timers s) \<subseteq> set_option (attemptTimer s) \<longrightarrow> timers (dispose s) = Map.empty)
   \<and> attacher.truncate (dispose (dispose s)) = attacher.truncate (dispose s)
   \<and> tasks (dispose (dispose s)) = tasks (dispose s)
   \<and> timers (dispose (dispose s)) = timers (dispose s)
   \<and> listeners (dispose (dispose s)) = listeners (dispose s)
   \<and> tm_listeners (dispose (dispose s)) = tm_listeners (dispose s)
   \<and> (\<forall>d. DisposeSubscription d
            \<notin> set (drop (length (effects (dispose s))) (effects (dispose (dispose s)))))
   \<and> tasks (dispose s) = tasks s"
proof -
  have a: "case attemptTimer s of None \<Rightarrow> True
       | Some k \<Rightarrow> step (TimerFired k) (dispose s) = dispose s"
    by (simp add: dispose_eq split: option.splits)
  have b: "listeners (dispose (run as init)) = []"
    using reachable_listeners_disposable [of as]
    by (auto simp add: dispose_eq filter_empty_conv)
  have c: "dom (timers s) \<subseteq> set_option (attemptTimer s) \<longrightarrow> timers (dispose s) = Map.empty"
    by (auto simp add: dispose_eq fun_eq_iff split: option.splits)
  have d: "dispose (dispose s)
       = (dispose s)\<lparr>effects := effects (dispose s)
            @ (case attemptTimer s of None \<Rightarrow> [] | Some k \<Rightarrow> [ClearTimeout k])
            @ (case targetManager s of None \<Rightarrow> [] | Some m \<Rightarrow> [DisposeTM m])\<rparr>"
    by (subst dispose_eq [of "dispose s"]) (simp add: dispose_eq split: option.splits)
  have e: "attacher.truncate (dispose (dispose s)) = attacher.truncate (dispose s)"
    "tasks (dispose (dispose s)) = tasks (dispose s)"
    "timers (dispose (dispose s)) = timers (dispose s)"
    "listeners (dispose (dispose s)) = listeners (dispose s)"
    "tm_listeners (dispose (dispose s)) = tm_listeners (dispose s)"
    by (subst d, simp add: attacher.truncate_def)+
  have f: "\<forall>d. DisposeSubscription d
            \<notin> set (drop (length (effects (dispose s))) (effects (dispose (dispose s))))"
    by (subst d) (auto split: option.splits)
  have g: "tasks (dispose s) = tasks s"
    by (simp add: dispose_eq)
  from a b c e f g dispose_eq [of s] show ?thesis by blast
qed

theorem dispose_releases_witness:
  "dom (timers retrying) \<subseteq> set_option (attemptTimer retrying)
   \<and> attemptTimer retrying = Some 2
   \<and> listeners retrying = [(1, 7, paramsA, ctx)]
   \<and> listeners (dispose retrying) = []
   \<and> timers (dispose retrying) = Map.empty
   \<and> disposables (dispose retrying) = []
   \<and> effects (dispose retrying) = effects retrying @ [DisposeSubscription 1, ClearTimeout 2]
   \<and> step (TimerFired 2) (dispose retrying) = dispose retrying
   \<and> attacher.truncate (dispose (dispose retrying)) = attacher.truncate (dispose retrying)
   \<and> timers (dispose (dispose retrying)) = Map.empty
   \<and> effects (dispose attached) = effects attached @ [DisposeSubscription 1, DisposeTM 5]"
proof -
  have k: "dom (timers retrying) \<subseteq> set_option (attemptTimer retrying)"
    by (simp add: retrying_eq init_def)
  have f: "attemptTimer retrying = Some 2" "targetManager retrying = None"
    "disposables retrying = [1]" "listeners retrying = [(1, 7, paramsA, ctx)]"
    by (simp_all add: retrying_eq init_def)
  note d = dispose_releases [of retrying
      "[Launch paramsA ctx, AttachResolved 0 7, ConnectResolved 0 (Some 5),
        MainTargetFound 0, Disconnected 7]"]
  note e = dispose_releases [of retrying, THEN conjunct1]
  from d have "listeners (dispose (run [Launch paramsA ctx, AttachResolved 0 7,
      ConnectResolved 0 (Some 5), MainTargetFound 0, Disconnected 7] init)) = []"
    by blast
  then have 1: "listeners (dispose retrying) = []"
    by (simp only: retrying_run [symmetric])
  from d k have 2: "timers (dispose retrying) = Map.empty"
    by blast
  from d have "case attemptTimer retrying of None \<Rightarrow> True
        | Some k \<Rightarrow> step (TimerFired k) (dispose retrying) = dispose retrying"
    by blast
  then have 3: "step (TimerFired 2) (dispose retrying) = dispose retrying"
    by (simp add: f del: step.simps)
  have 4: "disposables (dispose retrying) = []"
    "effects (dispose retrying) = effects retrying @ [DisposeSubscription 1, ClearTimeout 2]"
    by (simp_all add: e f)
  from d have 5: "attacher.truncate (dispose (dispose retrying))
                    = attacher.truncate (dispose retrying)"
    and "timers (dispose (dispose retrying)) = timers (dispose retrying)"
    by blast+
  with 2 have 6: "timers (dispose (dispose retrying)) = Map.empty"
    by simp
  have 7: "effects (dispose attached) = effects attached @ [DisposeSubscription 1, DisposeTM 5]"
    by (subst dispose_releases [of attached, THEN conjunct1]) (simp add: attached_eq init_def)
  from k f(1) f(4) 1 2 4 3 5 6 7 show ?thesis by blast
qed

end
